theory Spec2Isabelle
  imports Complex_Main "HOL-Library.Sublist"
begin

section \<open>Python values used by the honeypot\<close>

text \<open>
  A Python \<open>str\<close> is modelled as a \<open>string\<close> whose characters are the code points
  below 256 (Latin-1); the character predicates below follow Python's Unicode tables on
  that range. Python floats are modelled as exact reals: a score is the exact sum of the
  decimal constants of the source, and the binary rounding of such sums is outside the
  model.
\<close>

datatype error = TypeError | IndexError | ZeroDivisionError | LibraryError

definition isspace :: "char \<Rightarrow> bool" where
  "isspace c = (let n = (of_char c :: nat) in
     (9 \<le> n \<and> n \<le> 13) \<or> (28 \<le> n \<and> n \<le> 32) \<or> n = 133 \<or> n = 160)"

definition isalpha :: "char \<Rightarrow> bool" where
  "isalpha c = (let n = (of_char c :: nat) in
     (65 \<le> n \<and> n \<le> 90) \<or> (97 \<le> n \<and> n \<le> 122) \<or> n = 170 \<or> n = 181 \<or> n = 186 \<or>
     (192 \<le> n \<and> n \<le> 214) \<or> (216 \<le> n \<and> n \<le> 246) \<or> 248 \<le> n)"

definition isdigit :: "char \<Rightarrow> bool" where
  "isdigit c = (let n = (of_char c :: nat) in
     (48 \<le> n \<and> n \<le> 57) \<or> n = 178 \<or> n = 179 \<or> n = 185)"

definition isnumeric :: "char \<Rightarrow> bool" where
  "isnumeric c = (let n = (of_char c :: nat) in isdigit c \<or> (188 \<le> n \<and> n \<le> 190))"

definition isalnum :: "char \<Rightarrow> bool" where
  "isalnum c = (isalpha c \<or> isnumeric c)"

definition isupper :: "char \<Rightarrow> bool" where
  "isupper c = (let n = (of_char c :: nat) in
     (65 \<le> n \<and> n \<le> 90) \<or> (192 \<le> n \<and> n \<le> 214) \<or> (216 \<le> n \<and> n \<le> 222))"

definition lower_char :: "char \<Rightarrow> char" where
  "lower_char c = (if isupper c then char_of (of_char c + (32 :: nat)) else c)"

definition lower :: "string \<Rightarrow> string" where
  "lower s = map lower_char s"

definition strip :: "string \<Rightarrow> string" where
  "strip s = dropWhile isspace (rev (dropWhile isspace (rev s)))"

text \<open>\<open>p in s\<close> for strings: \<open>p\<close> occurs in \<open>s\<close> as a contiguous run.\<close>

fun str_in :: "string \<Rightarrow> string \<Rightarrow> bool" where
  "str_in p [] = (p = [])"
| "str_in p (c # s) = (prefix p (c # s) \<or> str_in p s)"

text \<open>\<open>s.count(p)\<close>: the number of non-overlapping occurrences, scanned from the left.\<close>

function str_count :: "string \<Rightarrow> string \<Rightarrow> nat" where
  "str_count p s =
     (if p = [] then length s + 1
      else if s = [] then 0
      else if prefix p s then 1 + str_count p (drop (length p) s)
      else str_count p (tl s))"
  by pat_completeness auto
termination
  by (relation "measure (\<lambda>(p, s). length s)") auto

declare str_count.simps [simp del]

text \<open>\<open>s.split()\<close>: the maximal runs of non-whitespace characters.\<close>

fun split_from :: "string \<Rightarrow> string \<Rightarrow> string list" where
  "split_from w [] = (if w = [] then [] else [w])"
| "split_from w (c # s) =
     (if isspace c then (if w = [] then split_from [] s else w # split_from [] s)
      else split_from (w @ [c]) s)"

definition split :: "string \<Rightarrow> string list" where
  "split s = split_from [] s"

text \<open>Python's \<open>round(x, n)\<close>: to \<open>n\<close> decimals, exact ties to the even neighbour.\<close>

definition round_half_even :: "real \<Rightarrow> int" where
  "round_half_even y =
     (let f = \<lfloor>y\<rfloor>; d = y - of_int f in
      if d < 1 / 2 then f else if 1 / 2 < d then f + 1 else if even f then f else f + 1)"

definition py_round :: "real \<Rightarrow> nat \<Rightarrow> real" where
  "py_round x n = of_int (round_half_even (x * 10 ^ n)) / 10 ^ n"

subsection \<open>The clock\<close>

text \<open>
  One reading of \<open>datetime.now()\<close>. \<open>dt_posix\<close> is \<open>int(now.timestamp())\<close>; it is
  fixed by the calendar fields and the host's time zone, which the source does not set.
\<close>

record datetime =
  dt_year :: nat
  dt_month :: nat
  dt_day :: nat
  dt_hour :: nat
  dt_minute :: nat
  dt_second :: nat
  dt_microsecond :: nat
  dt_posix :: int

definition digit_char :: "nat \<Rightarrow> char" where
  "digit_char d = char_of (48 + d)"

fun show_nat :: "nat \<Rightarrow> string" where
  "show_nat n = (if n < 10 then [digit_char n] else show_nat (n div 10) @ [digit_char (n mod 10)])"

declare show_nat.simps [simp del]

definition show_int :: "int \<Rightarrow> string" where
  "show_int i = (if i < 0 then CHR ''-'' # show_nat (nat (- i)) else show_nat (nat i))"

definition zero_pad :: "nat \<Rightarrow> nat \<Rightarrow> string" where
  "zero_pad w n = replicate (w - length (show_nat n)) CHR ''0'' @ show_nat n"

definition strftime_Ymd :: "datetime \<Rightarrow> string" where
  "strftime_Ymd t = zero_pad 4 (dt_year t) @ zero_pad 2 (dt_month t) @ zero_pad 2 (dt_day t)"

definition strftime_HMS :: "datetime \<Rightarrow> string" where
  "strftime_HMS t =
     zero_pad 2 (dt_hour t) @ '':'' @ zero_pad 2 (dt_minute t) @ '':'' @ zero_pad 2 (dt_second t)"

definition isoformat :: "datetime \<Rightarrow> string" where
  "isoformat t =
     zero_pad 4 (dt_year t) @ ''-'' @ zero_pad 2 (dt_month t) @ ''-'' @ zero_pad 2 (dt_day t) @
     ''T'' @ strftime_HMS t @
     (if dt_microsecond t = 0 then [] else ''.'' @ zero_pad 6 (dt_microsecond t))"

definition same_day :: "datetime \<Rightarrow> datetime \<Rightarrow> bool" where
  "same_day s t = (dt_year s = dt_year t \<and> dt_month s = dt_month t \<and> dt_day s = dt_day t)"

section \<open>backend/aetherion\_app.py: \<open>analyze_command_threat\<close>\<close>

record threat_scoring =
  command_complexity :: real
  suspicious_patterns :: real
  privilege_escalation :: real
  data_access :: real
  system_modification :: real
  network_activity :: real
  code_execution :: real
  information_gathering :: real

definition threat_scoring_init :: threat_scoring where
  "threat_scoring_init =
     \<lparr>command_complexity = 0, suspicious_patterns = 0, privilege_escalation = 0,
      data_access = 0, system_modification = 0, network_activity = 0,
      code_execution = 0, information_gathering = 0\<rparr>"

datatype category =
    Cat_system_destruction
  | Cat_privilege_escalation
  | Cat_data_access
  | Cat_network_exploitation
  | Cat_code_execution
  | Cat_system_reconnaissance
  | Cat_file_manipulation

definition threat_patterns :: "(category \<times> string list) list" where
  "threat_patterns =
     [(Cat_system_destruction, [''rm -rf/'', ''del /f'', ''format c:'', ''mkfs'', ''dd if='']),
      (Cat_privilege_escalation, [''sudo'', ''su -'', ''chmod +s'', ''setuid'', ''passwd'']),
      (Cat_data_access, [''cat /etc/passwd'', ''cat /etc/shadow'', ''cat /proc/'', ''strings '']),
      (Cat_network_exploitation, [''nc -l'', ''nc '', ''netcat'', ''telnet'', ''ssh -i'']),
      (Cat_code_execution, [''python -c'', ''bash -c'', ''sh -c'', ''eval('', ''exec('']),
      (Cat_system_reconnaissance, [''whoami'', ''id'', ''uname -a'', ''ps aux'', ''netstat'']),
      (Cat_file_manipulation, [''chmod +x'', ''mv '', ''cp '', ''touch '', ''mkdir ''])]"

text \<open>The bucket a matched pattern of a category adds to, with its weight.\<close>

fun score_match :: "category \<Rightarrow> threat_scoring \<Rightarrow> threat_scoring" where
  "score_match Cat_system_destruction ts = ts\<lparr>system_modification := system_modification ts + 0.3\<rparr>"
| "score_match Cat_privilege_escalation ts = ts\<lparr>privilege_escalation := privilege_escalation ts + 0.25\<rparr>"
| "score_match Cat_data_access ts = ts\<lparr>data_access := data_access ts + 0.2\<rparr>"
| "score_match Cat_network_exploitation ts = ts\<lparr>network_activity := network_activity ts + 0.22\<rparr>"
| "score_match Cat_code_execution ts = ts\<lparr>code_execution := code_execution ts + 0.28\<rparr>"
| "score_match Cat_system_reconnaissance ts = ts\<lparr>information_gathering := information_gathering ts + 0.18\<rparr>"
| "score_match Cat_file_manipulation ts = ts\<lparr>system_modification := system_modification ts + 0.15\<rparr>"

definition scan_category :: "string \<Rightarrow> category \<Rightarrow> string list \<Rightarrow> threat_scoring \<Rightarrow> threat_scoring" where
  "scan_category command_lower cat patterns ts =
     fold (\<lambda>pattern ts. if str_in pattern command_lower then score_match cat ts else ts) patterns ts"

definition scan_patterns :: "string \<Rightarrow> threat_scoring \<Rightarrow> threat_scoring" where
  "scan_patterns command_lower ts =
     fold (\<lambda>(cat, patterns) ts. scan_category command_lower cat patterns ts) threat_patterns ts"

definition special_chars :: "string \<Rightarrow> nat" where
  "special_chars command = length (filter (\<lambda>c. \<not> isalnum c \<and> c \<noteq> CHR '' '') command)"

definition char_ratio :: "string \<Rightarrow> real" where
  "char_ratio command =
     (if command \<noteq> [] then real (special_chars command) / real (length command) else 0)"

definition internal_prefixes :: "string list" where
  "internal_prefixes = [''192.168'', ''10.'', ''172.16'', ''127.'', ''::1'']"

text \<open>The statements of the function body, in order, each as a step on the buckets.\<close>

definition complexity_step :: "string \<Rightarrow> threat_scoring \<Rightarrow> threat_scoring" where
  "complexity_step command ts =
     (if length command > 150 then ts\<lparr>command_complexity := 0.2\<rparr>
      else if length command > 100 then ts\<lparr>command_complexity := 0.15\<rparr>
      else ts)"

definition ratio_step :: "string \<Rightarrow> threat_scoring \<Rightarrow> threat_scoring" where
  "ratio_step command ts =
     (if char_ratio command > 0.3
      then ts\<lparr>suspicious_patterns := suspicious_patterns ts + 0.2\<rparr> else ts)"

definition chaining_step :: "string \<Rightarrow> threat_scoring \<Rightarrow> threat_scoring" where
  "chaining_step command ts =
     (if str_in ''&&'' command \<or> str_in ''||'' command \<or> str_in '';'' command
      then ts\<lparr>suspicious_patterns := suspicious_patterns ts + 0.15\<rparr> else ts)"

definition substitution_step :: "string \<Rightarrow> threat_scoring \<Rightarrow> threat_scoring" where
  "substitution_step command ts =
     (if str_in ''$(('' command \<or> str_in ''`'' command
      then ts\<lparr>suspicious_patterns := suspicious_patterns ts + 0.18\<rparr> else ts)"

definition quoting_step :: "string \<Rightarrow> threat_scoring \<Rightarrow> threat_scoring" where
  "quoting_step command ts =
     (if str_count [CHR 0x22] command > 2 \<or> str_count [CHR 0x27] command > 4
      then ts\<lparr>suspicious_patterns := suspicious_patterns ts + 0.12\<rparr> else ts)"

definition ip_step :: "string \<Rightarrow> threat_scoring \<Rightarrow> threat_scoring" where
  "ip_step ip ts =
     (if ip \<noteq> [] \<and> \<not> list_ex (\<lambda>x. str_in x ip) internal_prefixes
      then ts\<lparr>network_activity := network_activity ts + 0.08\<rparr> else ts)"

definition threat_scoring_of :: "string \<Rightarrow> string \<Rightarrow> threat_scoring" where
  "threat_scoring_of command ip =
     (let command_lower = strip (lower command);
          ts = threat_scoring_init;
          ts = complexity_step command ts;
          ts = ratio_step command ts;
          ts = scan_patterns command_lower ts;
          ts = chaining_step command ts;
          ts = substitution_step command ts;
          ts = quoting_step command ts;
          ts = ip_step ip ts
      in ts)"

definition total_score :: "threat_scoring \<Rightarrow> real" where
  "total_score ts =
     command_complexity ts + suspicious_patterns ts + privilege_escalation ts + data_access ts +
     system_modification ts + network_activity ts + code_execution ts + information_gathering ts"

definition tier_of :: "real \<Rightarrow> string \<times> real" where
  "tier_of anomaly_score =
     (if anomaly_score \<ge> 0.85 then (''CRITICAL'', 0.96)
      else if anomaly_score \<ge> 0.65 then (''HIGH'', 0.88)
      else if anomaly_score \<ge> 0.35 then (''MEDIUM'', 0.72)
      else (''LOW'', 0.52))"

definition indicators_of :: "threat_scoring \<Rightarrow> string list" where
  "indicators_of ts =
     (if privilege_escalation ts > 0.2 then [''Privilege Escalation Attempt''] else []) @
     (if code_execution ts > 0.2 then [''Code Execution Pattern''] else []) @
     (if system_modification ts > 0.25 then [''System Modification Threat''] else []) @
     (if data_access ts > 0.15 then [''Unauthorized Data Access''] else []) @
     (if network_activity ts > 0.15 then [''Suspicious Network Activity''] else []) @
     (if information_gathering ts > 0.15 then [''Reconnaissance Activity''] else []) @
     (if suspicious_patterns ts > 0.2 then [''Advanced Attack Patterns''] else [])"

definition attack_vector_of :: "threat_scoring \<Rightarrow> string" where
  "attack_vector_of ts =
     (if system_modification ts > 0.25 then ''System Destruction''
      else if privilege_escalation ts > 0.2 then ''Privilege Escalation''
      else if code_execution ts > 0.25 then ''Code Injection''
      else if data_access ts > 0.18 then ''Data Exfiltration''
      else if network_activity ts > 0.2 then ''Network Intrusion''
      else if information_gathering ts > 0.15 then ''Reconnaissance''
      else ''Generic Command'')"

definition ascii_upper :: "char \<Rightarrow> char" where
  "ascii_upper c = (let n = (of_char c :: nat) in
     if 97 \<le> n \<and> n \<le> 122 then char_of (n - 32) else c)"

text \<open>
  \<open>sha256\<close> stands for \<open>hashlib.sha256(s.encode()).hexdigest()\<close>, a library function
  outside the repository; its result consists of hexadecimal digits.
\<close>

definition threat_signature_of :: "(string \<Rightarrow> string) \<Rightarrow> string \<Rightarrow> string \<Rightarrow> datetime \<Rightarrow> string" where
  "threat_signature_of sha256 command ip now =
     map ascii_upper (take 16 (sha256 (command @ '':'' @ ip @ '':'' @ strftime_Ymd now)))"

record assessment =
  threat_level :: string
  anomaly_score :: real
  confidence :: real
  attack_vector :: string
  indicators :: "string list"
  scoring_breakdown :: threat_scoring
  threat_signature :: string
  analyzer_version :: string
  analysis_timestamp :: string

text \<open>
  The function reads the clock twice: \<open>now_sig\<close> dates the signature, \<open>now_ts\<close> is the
  later reading that stamps the result.
\<close>

definition analyze_command_threat ::
    "(string \<Rightarrow> string) \<Rightarrow> string \<Rightarrow> string \<Rightarrow> datetime \<Rightarrow> datetime \<Rightarrow> assessment" where
  "analyze_command_threat sha256 command ip now_sig now_ts =
     (let ts = threat_scoring_of command ip;
          anomaly = min 1.0 (total_score ts * 0.75);
          (level, conf) = tier_of anomaly
      in \<lparr>threat_level = level,
          anomaly_score = py_round anomaly 6,
          confidence = py_round conf 3,
          attack_vector = attack_vector_of ts,
          indicators = indicators_of ts,
          scoring_breakdown = ts,
          threat_signature = threat_signature_of sha256 command ip now_sig,
          analyzer_version = ''AetherionBot 1.0'',
          analysis_timestamp = isoformat now_ts\<rparr>)"

section \<open>backend/ai.py: \<open>AIManager\<close>\<close>

subsection \<open>Dictionaries in insertion order\<close>

text \<open>
  A Python \<open>dict\<close> keeps its keys in insertion order: an association list with distinct
  keys. Assigning to a present key keeps its position, a new key goes to the end.
\<close>

fun dict_set :: "'k \<Rightarrow> 'v \<Rightarrow> ('k \<times> 'v) list \<Rightarrow> ('k \<times> 'v) list" where
  "dict_set k v [] = [(k, v)]"
| "dict_set k v (p # ps) = (if fst p = k then (k, v) # ps else p # dict_set k v ps)"

definition dict_del :: "'k \<Rightarrow> ('k \<times> 'v) list \<Rightarrow> ('k \<times> 'v) list" where
  "dict_del k d = filter (\<lambda>p. fst p \<noteq> k) d"

definition dict_keys :: "('k \<times> 'v) list \<Rightarrow> 'k list" where
  "dict_keys d = map fst d"

subsection \<open>Feature extraction\<close>

record features =
  feat_length :: nat
  word_count :: nat
  digit_count :: nat
  special_char_count :: nat
  uppercase_count :: nat
  path_depth :: nat
  has_numbers :: bool
  feat_suspicious_patterns :: nat
  detected_patterns :: "string list"
  entropy :: real
  has_file_path :: bool
  has_url :: bool
  has_ip :: bool

definition suspicious_pattern_list :: "string list" where
  "suspicious_pattern_list =
     [''rm -rf'', ''sudo'', ''su -'', ''passwd'', ''shadow'',
      ''iptables'', ''netstat'', ''ps aux'', ''whoami'', ''id'',
      ''curl'', ''wget'', ''nc '', ''netcat'', ''telnet'',
      ''ftp'', ''nmap'', ''hydra'', ''john'', ''hashcat'',
      ''python'', ''bash'', ''sh '', ''chmod'', ''chown'',
      ''kill'', ''pkill'', ''killall'', ''systemctl'',
      ''journalctl'', ''cat /etc'', ''cat /proc'', ''ls -la'',
      ''find '', ''grep '', ''awk'', ''sed'', ''xargs'', ''..'',
      ''/dev/null'', ''2>&1'', ''>/dev/null'', ''&&'', ''||'']"

definition char_counts :: "string \<Rightarrow> (char \<times> nat) list" where
  "char_counts command =
     fold (\<lambda>char d. dict_set char ((case map_of d char of None \<Rightarrow> 0 | Some n \<Rightarrow> n) + 1) d)
       command []"

definition shannon_entropy :: "string \<Rightarrow> real" where
  "shannon_entropy command =
     foldl (\<lambda>entropy count.
              if count > 0
              then (let p = real count / real (length command) in entropy - p * log 2 p)
              else entropy)
       0 (map snd (char_counts command))"

definition str_isdigit :: "string \<Rightarrow> bool" where
  "str_isdigit s = (s \<noteq> [] \<and> list_all isdigit s)"

definition looks_like_ip :: "string \<Rightarrow> bool" where
  "looks_like_ip part =
     (str_isdigit (filter (\<lambda>c. c \<noteq> CHR ''.'') part) \<and> count_list part CHR ''.'' + 1 = 4)"

definition extract_features :: "string \<Rightarrow> features" where
  "extract_features command =
     (let detected = filter (\<lambda>pattern. str_in pattern (lower command)) suspicious_pattern_list
      in \<lparr>feat_length = length command,
          word_count = length (split command),
          digit_count = length (filter isdigit command),
          special_char_count = length (filter (\<lambda>c. \<not> isalnum c \<and> \<not> isspace c) command),
          uppercase_count = length (filter isupper command),
          path_depth = str_count ''/'' command,
          has_numbers = (length (filter isdigit command) \<noteq> 0),
          feat_suspicious_patterns = length detected,
          detected_patterns = detected,
          entropy = shannon_entropy command,
          has_file_path = (str_in ''/'' command \<or> str_in [CHR 0x5C] command),
          has_url = (str_in ''http://'' command \<or> str_in ''https://'' command),
          has_ip = list_ex looks_like_ip (split command)\<rparr>)"

definition create_feature_vector :: "features \<Rightarrow> real list" where
  "create_feature_vector fs =
     [real (feat_length fs), real (word_count fs), real (digit_count fs),
      real (special_char_count fs), real (uppercase_count fs), real (path_depth fs),
      real (feat_suspicious_patterns fs), entropy fs,
      of_bool (has_numbers fs), of_bool (has_file_path fs), of_bool (has_url fs),
      of_bool (has_ip fs)]"

subsection \<open>Scoring\<close>

text \<open>
  The loaded model and scaler are objects of a library outside the repository. A call
  into them either raises or returns; \<open>offset_0\<close> is the expression
  \<open>self.model.offset_[0]\<close>.
\<close>

record model_handle =
  has_decision_function :: bool
  decision_function :: "real list \<Rightarrow> error + real"
  offset_0 :: "error + real"
  predict :: "real list \<Rightarrow> error + int"

record ai_manager =
  model :: "model_handle option"
  scaler :: "(real list \<Rightarrow> error + real list) option"

definition heuristic_score :: "features \<Rightarrow> real" where
  "heuristic_score fs =
     (let score = 0.0;
          score = (if feat_length fs > 50 then score + 0.2 else score);
          score = score + real (feat_suspicious_patterns fs) * 0.15;
          score = (if special_char_count fs > 5 then score + 0.1 else score);
          score = (if entropy fs > 4 then score + 0.2 else score);
          score = (if has_file_path fs then score + 0.1 else score)
      in min 1.0 score)"

text \<open>The body of the \<open>try\<close> block of \<open>predict_anomaly\<close>.\<close>

definition model_score :: "ai_manager \<Rightarrow> model_handle \<Rightarrow> features \<Rightarrow> error + real" where
  "model_score mgr m fs =
     (case (case scaler mgr of None \<Rightarrow> Inr (create_feature_vector fs)
                             | Some transform \<Rightarrow> transform (create_feature_vector fs)) of
        Inl e \<Rightarrow> Inl e
      | Inr feature_vector \<Rightarrow>
          if has_decision_function m then
            (case decision_function m feature_vector of
               Inl e \<Rightarrow> Inl e
             | Inr score \<Rightarrow>
                 (case offset_0 m of
                    Inl e \<Rightarrow> Inl e
                  | Inr off \<Rightarrow>
                      if 2 * off = 0 then Inl ZeroDivisionError
                      else Inr (1 - max 0 (min 1 ((score + off) / (2 * off) + 0.5)))))
          else
            (case predict m feature_vector of
               Inl e \<Rightarrow> Inl e
             | Inr prediction \<Rightarrow> Inr (if prediction = - 1 then 1 else 0)))"

definition predict_anomaly :: "ai_manager \<Rightarrow> features \<Rightarrow> real" where
  "predict_anomaly mgr fs =
     (case model mgr of
        None \<Rightarrow> heuristic_score fs
      | Some m \<Rightarrow> (case model_score mgr m fs of Inl e \<Rightarrow> heuristic_score fs | Inr s \<Rightarrow> s))"

definition get_threat_level :: "real \<Rightarrow> string" where
  "get_threat_level anomaly =
     (if anomaly \<ge> 0.8 then ''CRITICAL''
      else if anomaly \<ge> 0.6 then ''HIGH''
      else if anomaly \<ge> 0.4 then ''MEDIUM''
      else ''LOW'')"

text \<open>
  The analysis dictionary. \<open>validate_command\<close> creates it, \<open>analyze_command\<close> adds keys
  to it, and the fallback dictionary has a different key set: a key that is absent is
  \<open>None\<close>.
\<close>

record analysis =
  an_command :: string
  an_features :: "features option"
  an_anomaly_score :: real
  an_threat_level :: string
  an_risk_factors :: "string list"
  an_analysis_timestamp :: "string option"
  an_ip :: "string option"
  an_timestamp :: "string option"
  an_session_id :: "string option"
  an_attack_patterns :: "string list option"
  an_complexity_score :: "real option"
  an_analysis_method :: "string option"

definition validate_command :: "ai_manager \<Rightarrow> string \<Rightarrow> datetime \<Rightarrow> analysis" where
  "validate_command mgr command now =
     (let fs = extract_features command;
          anomaly = predict_anomaly mgr fs;
          level = get_threat_level anomaly
      in \<lparr>an_command = command,
          an_features = Some fs,
          an_anomaly_score = anomaly,
          an_threat_level = level,
          an_risk_factors = detected_patterns fs,
          an_analysis_timestamp = Some (isoformat now),
          an_ip = None, an_timestamp = None, an_session_id = None,
          an_attack_patterns = None, an_complexity_score = None,
          an_analysis_method = None\<rparr>)"

section \<open>honeypot/ai\_analysis.py: \<open>AIAnalyzer\<close>\<close>

record ai_analyzer =
  manager :: ai_manager
  analysis_cache :: "(string \<times> analysis) list"
  cache_size :: nat

definition attack_patterns :: "(string \<times> string list) list" where
  "attack_patterns =
     [(''privilege_escalation'', [''sudo'', ''su -'', ''su root'', ''su -l'', ''su -'']),
      (''file_manipulation'', [''rm -rf'', ''rm -rf /'', ''dd if='', ''cat >'', ''echo >'']),
      (''system_enumeration'', [''cat /etc/passwd'', ''cat /etc/shadow'', ''uname -a'', ''ps aux'']),
      (''network_scanning'', [''nmap'', ''masscan'', ''zmap'', ''nc -z'', ''nc -v'']),
      (''command_injection'', [''; '', ''&&'', ''||'', ''|'', ''`'', ''$('', ''${{'']),
      (''data_exfiltration'', [''curl'', ''wget'', ''scp'', ''rsync'', ''nc-'']),
      (''service_disruption'', [''kill -9'', ''killall'', ''systemctl stop'', ''service stop'']),
      (''malicious_scripting'', [''python -c'', ''bash -c'', ''sh -c'', ''curl | sh'']),
      (''authentication_bypass'', [''passwd'', ''ssh-copy-id'', ''ssh-keygen'', ''id_rsa'']),
      (''persistence'', [''crontab'', ''systemctl enable'', ''.bashrc'', ''.profile''])]"

definition detect_attack_patterns :: "string \<Rightarrow> string list" where
  "detect_attack_patterns command =
     (let command_lower = lower command
      in map fst (filter (\<lambda>(pattern_type, keywords).
                            list_ex (\<lambda>keyword. str_in keyword command_lower) keywords)
                    attack_patterns))"

definition calculate_complexity :: "string \<Rightarrow> real" where
  "calculate_complexity command =
     (let score = 0.0;
          score = (if length command > 50 then score + 0.2
                   else if length command > 100 then score + 0.4 else score);
          score = score + real (str_count ''|'' command) * 0.1;
          score = score + real (str_count '';'' command) * 0.1;
          score = score + real (str_count ''&&'' command) * 0.15;
          score = score + real (str_count ''||'' command) * 0.15;
          score = score + real (str_count ''$('' command) * 0.2;
          score = score + real (str_count ''`'' command) * 0.15;
          score = score + real (str_count ''>'' command) * 0.05;
          score = score + real (str_count ''<'' command) * 0.05;
          score = score + real (str_count ''2>&1'' command) * 0.1;
          score = (if length (split command) > 5 then score + 0.1 else score)
      in min 1.0 score)"

definition cache_analysis :: "ai_analyzer \<Rightarrow> string \<Rightarrow> analysis \<Rightarrow> ai_analyzer" where
  "cache_analysis st cache_key a =
     (let cache = analysis_cache st;
          cache = (if length cache \<ge> cache_size st
                   then (let keys_to_remove = take (cache_size st div 5) (dict_keys cache)
                         in fold dict_del keys_to_remove cache)
                   else cache)
      in st\<lparr>analysis_cache := dict_set cache_key a cache\<rparr>)"

definition fallback_analysis :: "string \<Rightarrow> string \<Rightarrow> datetime \<Rightarrow> analysis" where
  "fallback_analysis command ip now =
     \<lparr>an_command = command,
      an_features = None,
      an_anomaly_score = 0.5,
      an_threat_level = ''MEDIUM'',
      an_risk_factors = [''analysis_error''],
      an_analysis_timestamp = None,
      an_ip = Some ip,
      an_timestamp = Some (isoformat now),
      an_session_id = None,
      an_attack_patterns = None,
      an_complexity_score = None,
      an_analysis_method = Some ''fallback''\<rparr>"

text \<open>The readings of \<open>datetime.now()\<close> that one call of \<open>analyze_command\<close> makes.\<close>

record clock_reads =
  at_validate :: datetime
  at_timestamp :: datetime
  at_session :: datetime
  at_fallback :: datetime

definition make_cache_key :: "string \<Rightarrow> string \<Rightarrow> string" where
  "make_cache_key ip command = ip @ '':'' @ command"

text \<open>The body of the \<open>try\<close> block of \<open>analyze_command\<close>.\<close>

definition analyze_command_try ::
    "ai_analyzer \<Rightarrow> string \<Rightarrow> string \<Rightarrow> clock_reads \<Rightarrow> error + analysis \<times> ai_analyzer" where
  "analyze_command_try st command ip clk =
     (let cache_key = make_cache_key ip command
      in case map_of (analysis_cache st) cache_key of
           Some cached \<Rightarrow> Inr (cached, st)
         | None \<Rightarrow>
             (let a = validate_command (manager st) command (at_validate clk);
                  a = a\<lparr>an_ip := Some ip\<rparr>;
                  a = a\<lparr>an_timestamp := Some (isoformat (at_timestamp clk))\<rparr>;
                  a = a\<lparr>an_session_id := Some (ip @ ''_'' @ show_int (dt_posix (at_session clk)))\<rparr>;
                  a = a\<lparr>an_attack_patterns := Some (detect_attack_patterns command)\<rparr>;
                  a = a\<lparr>an_complexity_score := Some (calculate_complexity command)\<rparr>
              in Inr (a, cache_analysis st cache_key a)))"

text \<open>
  \<open>analyze_command\<close> with its \<open>except Exception\<close> handler; \<open>Inl\<close> would be an exception
  that reaches the caller.
\<close>

definition analyze_command ::
    "ai_analyzer \<Rightarrow> string \<Rightarrow> string \<Rightarrow> clock_reads \<Rightarrow> error + analysis \<times> ai_analyzer" where
  "analyze_command st command ip clk =
     (case analyze_command_try st command ip clk of
        Inr r \<Rightarrow> Inr r
      | Inl e \<Rightarrow> Inr (fallback_analysis command ip (at_fallback clk), st))"

text \<open>The analyzer as \<open>AIAnalyzer.__init__\<close> leaves it.\<close>

definition ai_analyzer_init :: "ai_manager \<Rightarrow> ai_analyzer" where
  "ai_analyzer_init mgr = \<lparr>manager = mgr, analysis_cache = [], cache_size = 1000\<rparr>"

section \<open>honeypot/handlers.py: \<open>ConnectionHandler\<close>\<close>

subsection \<open>The canned outputs\<close>

definition ls_la_output :: string where
  "ls_la_output =
     ''total 84\<newline>'' @
     ''drwxr-xr-x 22 root root  4096 Jan 15 10:30 .\<newline>'' @
     ''drwxr-xr-x 23 root root  4096 Dec 23 08:15 ..\<newline>'' @
     ''-rw-------  1 root root  1234 Jan 14 09:20 .bash_history\<newline>'' @
     ''-rw-r--r--  1 root root  2043 Jan 01 00:00 .bashrc\<newline>'' @
     ''drwxr-xr-x  2 root root  4096 Nov 30 12:45 backups\<newline>'' @
     ''-rwxr-xr-x  1 root root  8192 Jan 02 15:20 cronjob.sh\<newline>'' @
     ''drwxr-xr-x  3 root root  4096 Dec 15 14:30 data\<newline>'' @
     ''-rw-r--r--  1 root root  1024 Jan 10 18:30 config.ini\<newline>'' @
     ''-rwxr-xr-x  1 root root  4096 Dec 28 16:45 deploy.sh\<newline>'' @
     ''drwxr-xr-x  2 root root  4096 Jan 05 11:20 logs\<newline>'' @
     ''drwxrwxr-x  2 root root  4096 Dec 20 09:15 temp\<newline>'' @
     ''-rwxr-xr-x  1 root root  2048 Jan 12 13:25 update.sh\<newline>'' @
     ''-rwxr-xr-x  1 root root  512  Dec 18 07:30 watchdog.sh''"

definition ls_output :: string where
  "ls_output =
     ''backups  config.ini  cronjob.sh  data  deploy.sh  logs  temp  update.sh  watchdog.sh''"

definition uname_output :: string where
  "uname_output =
     ''Linux server 5.4.0-94-generic #106-Ubuntu SMP Thu Jan 6 23:58:14 UTC 2022 x86_64 x86_64 x86_64 GNU/Linux''"

definition ps_aux_output :: string where
  "ps_aux_output =
     ''USER       PID %CPU %MEM    VSZ   RSS TTY      STAT START   TIME COMMAND\<newline>'' @
     ''root         1  0.0  0.1 225836  9216 ?        Ss   Jan15   0:02 /sbin/init\<newline>'' @
     ''root         2  0.0  0.0      0     0 ?        S    Jan15   0:00 [kthreadd]\<newline>'' @
     ''root         3  0.0  0.0      0     0 ?        I<   Jan15   0:00 [rcu_gp]\<newline>'' @
     ''root         4  0.0  0.0      0     0 ?        I<   Jan15   0:00 [rcu_par_gp]\<newline>'' @
     ''root         5  0.0  0.0      0     0 ?        I<   Jan15   0:00 [netns]\<newline>'' @
     ''root        87 0.0 0.3 201532 24784 ?        Ss   Jan15   0:00 sshd: /usr/sbin/sshd [listener] \<newline>'' @
     ''root       234 0.0 0.1 185268  8504 ?        Ss   Jan15   0:00 crond''"

definition passwd_output :: string where
  "passwd_output =
     ''root:x:0:0:root:/root:/bin/bash\<newline>'' @
     ''daemon:x:1:1:daemon:/usr/sbin:/usr/sbin/nologin\<newline>'' @
     ''bin:x:2:2:bin:/bin:/usr/sbin/nologin\<newline>'' @
     ''sys:x:3:3:sys:/dev:/usr/sbin/nologin\<newline>'' @
     ''sync:x:4:65534:sync:/bin:/bin/sync\<newline>'' @
     ''games:x:5:60:games:/usr/games:/usr/sbin/nologin\<newline>'' @
     ''man:x:6:12:man:/var/cache/man:/usr/sbin/nologin\<newline>'' @
     ''lp:x:7:7:lp:/var/spool/lpd:/usr/sbin/nologin\<newline>'' @
     ''mail:x:8:8:mail:/var/mail:/usr/sbin/nologin\<newline>'' @
     ''news:x:9:9:news:/var/spool/news:/usr/sbin/nologin''"

definition netstat_output :: string where
  "netstat_output =
     ''Active Internet connections (only servers)\<newline>'' @
     ''Proto Recv-Q Send-Q Local Address           Foreign Address         State      \<newline>'' @
     ''tcp        0      0 0.0.0.0:22              0.0.0.0:*               LISTEN     \<newline>'' @
     ''tcp        0      0 127.0.0.1:6379          0.0.0.0:*               LISTEN     \<newline>'' @
     ''tcp6       0      0 :::22                    :::*                    LISTEN     \<newline>'' @
     ''tcp6       0      0 :::80                    :::*                    LISTEN''"

definition curl_output :: string where
  "curl_output =
     ''Connected to example.com (93.184.216.34:80)\<newline>'' @
     ''HTTP/1.1 200 OK\<newline>'' @
     ''Date: Mon, 15 Jan 2024 10:30:45 GMT\<newline>'' @
     ''Server: nginx/1.18.0\<newline>'' @
     ''Content-Type: text/html; charset=UTF-8\<newline>'' @
     ''\<newline>'' @
     ''<html>\<newline>'' @
     ''<head><title>Welcome to Example Server</title></head>\<newline>'' @
     ''<body><h1>Server is running</h1></body>\<newline>'' @
     ''</html>''"

definition python_output :: string where
  "python_output =
     ''Python 3.8.10 (default, Jun 22 2022, 20:18:18)\<newline>'' @
     ''[GCC 9.4.0] on linux''"

definition uptime_output :: string where
  "uptime_output =
     '' 10:30:45 up 23 days, 8:45, 1 user, load average: 0.08, 0.03, 0.00''"

definition free_output :: string where
  "free_output =
     ''              total        used        free      shared  buff/cache   available\<newline>'' @
     ''Mem:        8053068     2048560     1234567       245678     4770941     3456789\<newline>'' @
     ''Swap:       2097148           0     2097148''"

definition df_output :: string where
  "df_output =
     ''Filesystem     Size  Used Avail Use% Mounted on\<newline>'' @
     ''/dev/sda1       20G  8.5G   11G  45% /\<newline>'' @
     ''/dev/sda2        8G  2.1G  5.9G  27% /var\<newline>'' @
     ''tmpfs          3.9G     0  3.9G   0% /dev/shm''"

definition history_output :: string where
  "history_output =
     ''   1  ls -la\<newline>'' @
     ''   2  whoami  \<newline>'' @
     ''   3  pwd\<newline>'' @
     ''   4  date\<newline>'' @
     ''   5  uptime\<newline>'' @
     ''   6  ps aux''"

definition env_output :: string where
  "env_output =
     ''PATH=/usr/local/sbin:/usr/local/bin:/usr/sbin:/usr/bin:/sbin:/bin\<newline>'' @
     ''TERM=xterm-256color\<newline>'' @
     ''SHELL=/bin/bash\<newline>'' @
     ''HOME=/root\<newline>'' @
     ''USER=root\<newline>'' @
     ''PWD=/root''"

subsection \<open>Response generation\<close>

text \<open>\<open>command\<close> arrives stripped; \<open>now\<close> is the clock reading of the \<open>date\<close> branch.\<close>

definition get_command_response :: "string \<Rightarrow> datetime \<Rightarrow> error + string" where
  "get_command_response command now =
     (let command_lower = lower command in
      if prefix ''ls'' command_lower then
        (if str_in ''-la'' command_lower \<or> str_in ''-a'' command_lower
         then Inr ls_la_output else Inr ls_output)
      else if command_lower = ''pwd'' then Inr ''/root''
      else if command_lower = ''whoami'' then Inr ''root''
      else if prefix ''uname'' command_lower then Inr uname_output
      else if command_lower = ''id'' then Inr ''uid=0(root) gid=0(root) groups=0(root)''
      else if prefix ''ps aux'' command_lower then Inr ps_aux_output
      else if prefix ''cat /etc/passwd'' command_lower then Inr passwd_output
      else if prefix ''netstat'' command_lower then Inr netstat_output
      else if prefix ''curl'' command_lower \<or> prefix ''wget'' command_lower then Inr curl_output
      else if prefix ''python'' command_lower then Inr python_output
      else if prefix ''date'' command_lower
        then Inr (''Mon Jan 15 '' @ strftime_HMS now @ '' UTC 2024'')
      else if prefix ''uptime'' command_lower then Inr uptime_output
      else if prefix ''free'' command_lower then Inr free_output
      else if prefix ''df'' command_lower then Inr df_output
      else if prefix ''history'' command_lower then Inr history_output
      else if prefix ''env'' command_lower then Inr env_output
      else if prefix ''echo'' command_lower then
        (let echo_msg = strip (drop 4 command) in Inr ([CHR 0x22] @ echo_msg @ [CHR 0x22]))
      else if prefix ''touch'' command_lower then
        (let filename = strip (drop 5 command)
         in Inr (''touch: creating file '' @ [CHR 0x27] @ filename @ [CHR 0x27] @
                 '': Permission denied''))
      else if prefix ''mkdir'' command_lower then
        Inr (''mkdir: cannot create directory '' @ [CHR 0x27] @ ''test'' @ [CHR 0x27] @
             '': File exists'')
      else if prefix ''rm'' command_lower then
        Inr (''rm: cannot remove '' @ [CHR 0x27] @ ''/root/test'' @ [CHR 0x27] @
             '': No such file or directory'')
      else if prefix ''su '' command_lower \<or> prefix ''sudo'' command_lower then
        Inr ''Authenticate as super user:''
      else
        (case split command of
           [] \<Rightarrow> Inl IndexError
         | first # _ \<Rightarrow> Inr (''-bash: '' @ first @ '': command not found'')))"

text \<open>
  \<open>random.choice\<close> on the module's unseeded generator: \<open>draw\<close> is the number the
  generator yields for this call.
\<close>

definition random_choice :: "'a list \<Rightarrow> nat \<Rightarrow> 'a" where
  "random_choice xs draw = xs ! (draw mod length xs)"

definition add_suspicious_output :: "string \<Rightarrow> nat \<Rightarrow> string" where
  "add_suspicious_output command draw =
     random_choice
       [''\<newline>Warning: Suspicious activity detected'',
        ''\<newline>System integrity check initiated...'',
        ''\<newline>Access denied to secure component'',
        ''\<newline>[ALERT] Security module activated'',
        ''\<newline>Monitoring command execution...''] draw"

definition add_warning_output :: "string \<Rightarrow> nat \<Rightarrow> string" where
  "add_warning_output command draw =
     random_choice
       [''\<newline>Note: Command logged for security audit'',
        ''\<newline>Warning: Unusual command pattern detected'',
        ''\<newline>System monitoring active''] draw"

definition generate_response :: "string \<Rightarrow> analysis \<Rightarrow> datetime \<Rightarrow> nat \<Rightarrow> error + string" where
  "generate_response command a now draw =
     (let level = an_threat_level a in
      case get_command_response (strip command) now of
        Inl e \<Rightarrow> Inl e
      | Inr response \<Rightarrow>
          (let response =
                 (if level \<in> set [''HIGH'', ''CRITICAL'']
                  then response @ add_suspicious_output command draw
                  else if level = ''MEDIUM''
                  then response @ add_warning_output command draw
                  else response)
           in Inr (response @ ''\<newline>[root@server ~]# '')))"

section \<open>honeypot/telegram\_alert.py: \<open>TelegramManager\<close>\<close>

text \<open>
  The alert text holds characters beyond Latin-1, so it is a list of code points;
  \<open>cps\<close> embeds a string.
\<close>

type_synonym codepoints = "nat list"

definition cps :: "string \<Rightarrow> codepoints" where
  "cps s = map of_char s"

record telegram_manager =
  bot_token :: "string option"
  chat_id :: "string option"
  max_message_length :: nat

definition truthy :: "string option \<Rightarrow> bool" where
  "truthy v = (case v of None \<Rightarrow> False | Some s \<Rightarrow> s \<noteq> [])"

definition is_configured :: "telegram_manager \<Rightarrow> bool" where
  "is_configured tm = (truthy (bot_token tm) \<and> truthy (chat_id tm))"

text \<open>\<open>s.replace(old, new)\<close> for a one-character \<open>old\<close>.\<close>

definition replace_char :: "char \<Rightarrow> string \<Rightarrow> string \<Rightarrow> string" where
  "replace_char old new s = concat (map (\<lambda>c. if c = old then new else [c]) s)"

definition sanitize_command :: "string \<Rightarrow> string" where
  "sanitize_command command =
     (let safe = replace_char CHR ''>'' ''&gt;'' (replace_char CHR ''<'' ''&lt;'' command);
          safe = replace_char CHR ''&'' ''&amp;'' safe;
          safe = (if length safe > 500 then take 500 safe @ ''... [truncated]'' else safe)
      in safe)"

text \<open>\<open>requests.post\<close> and what the response object does, as far as the code looks.\<close>

datatype json_outcome = Json_raises | Json_ok bool

datatype post_outcome =
    Post_Timeout
  | Post_RequestException
  | Post_OtherException
  | Response (http_error: bool) (json: json_outcome)

record payload =
  p_chat_id :: "string option"
  p_text :: codepoints
  p_parse_mode :: string
  p_disable_web_page_preview :: bool

text \<open>\<open>f"{v}"\<close> for an optional string.\<close>

definition format_opt :: "string option \<Rightarrow> string" where
  "format_opt v = (case v of None \<Rightarrow> ''None'' | Some s \<Rightarrow> s)"

definition send_message ::
    "telegram_manager \<Rightarrow> (string \<Rightarrow> payload \<Rightarrow> post_outcome) \<Rightarrow> codepoints \<Rightarrow> error + bool" where
  "send_message tm post txt =
     (let txt = (if length txt > max_message_length tm
                 then take (max_message_length tm - 3) txt @ cps ''...'' else txt);
          url = ''https://api.telegram.org/bot'' @ format_opt (bot_token tm) @ ''/sendMessage'';
          payload = \<lparr>p_chat_id = chat_id tm, p_text = txt, p_parse_mode = ''HTML'',
                     p_disable_web_page_preview = True\<rparr>
      in case post url payload of
           Post_Timeout \<Rightarrow> Inr False
         | Post_RequestException \<Rightarrow> Inr False
         | Post_OtherException \<Rightarrow> Inr False
         | Response http_err js \<Rightarrow>
             if http_err then Inr False
             else (case js of Json_raises \<Rightarrow> Inr False | Json_ok ok \<Rightarrow> Inr ok))"

definition threat_emoji :: "string \<Rightarrow> codepoints" where
  "threat_emoji level =
     (if level = ''LOW'' then [0x1F7E2]
      else if level = ''MEDIUM'' then [0x1F7E1]
      else if level = ''HIGH'' then [0x1F7E0]
      else if level = ''CRITICAL'' then [0x1F6A8]
      else [0x26A0, 0xFE0F])"

text \<open>\<open>f"{x:.3f}"\<close> for a number.\<close>

definition format_3f :: "real \<Rightarrow> string" where
  "format_3f x =
     (let n = nat (round_half_even (\<bar>x\<bar> * 1000))
      in (if x < 0 then ''-'' else []) @ show_nat (n div 1000) @ ''.'' @ zero_pad 3 (n mod 1000))"

definition strftime_alert :: "datetime \<Rightarrow> string" where
  "strftime_alert t =
     zero_pad 4 (dt_year t) @ ''-'' @ zero_pad 2 (dt_month t) @ ''-'' @ zero_pad 2 (dt_day t) @
     '' '' @ strftime_HMS t @ '' UTC''"

definition additional_info_lines :: "(string \<times> string) list \<Rightarrow> codepoints" where
  "additional_info_lines info =
     concat (map (\<lambda>(key, val). [0x2022] @ cps '' '' @ cps key @ cps '': '' @ cps val @ cps ''\<newline>'') info)"

text \<open>
  \<open>anomaly_score\<close> and \<open>additional_info\<close> default to \<open>None\<close>. Formatting \<open>None\<close> with
  \<open>.3f\<close> raises \<open>TypeError\<close>, outside any \<open>try\<close>.
\<close>

definition send_alert ::
    "telegram_manager \<Rightarrow> (string \<Rightarrow> payload \<Rightarrow> post_outcome) \<Rightarrow> datetime \<Rightarrow>
     string \<Rightarrow> string \<Rightarrow> string \<Rightarrow> real option \<Rightarrow> (string \<times> string) list option \<Rightarrow>
     error + bool" where
  "send_alert tm post now command ip level anomaly additional_info =
     (if \<not> is_configured tm then Inr False
      else
        (let emoji = threat_emoji level;
             safe_command = sanitize_command command
         in case anomaly of
              None \<Rightarrow> Inl TypeError
            | Some score \<Rightarrow>
                (let message =
                       emoji @ cps '' <b>AIML Honeypot Alert</b>\<newline>'' @
                       [0x1F30D] @ cps '' <b>Source IP:</b> <code>'' @ cps ip @ cps ''</code>\<newline>'' @
                       [0x1F50D] @ cps '' <b>Threat Level:</b> '' @ cps level @ cps ''\<newline>'' @
                       [0x1F4BB] @ cps '' <b>Attempted Command:</b>\<newline><pre>'' @ cps safe_command @
                       cps ''</pre>\<newline>'' @
                       [0x1F4CA] @ cps '' <b>Anomaly Score:</b> '' @ cps (format_3f score) @ cps ''\<newline>'' @
                       [0x23F0] @ cps '' <b>Time:</b> '' @ cps (strftime_alert now) @ cps ''\<newline>'';
                     message =
                       (case additional_info of
                          None \<Rightarrow> message
                        | Some info \<Rightarrow>
                            if info = [] then message
                            else message @ cps ''\<newline>'' @ [0x1F4CD] @
                                 cps '' <b>Additional Info:</b>\<newline>'' @ additional_info_lines info);
                     message = message @ cps ''\<newline>'' @ [0x1F916] @
                               cps '' <b>Detected by AIML Honeypot</b>''
                 in send_message tm post message)))"

section \<open>Auxiliary notions and sample data\<close>

text \<open>A score that is a whole number of hundredths.\<close>

definition cents :: "real \<Rightarrow> bool" where
  "cents x = (\<exists>k::nat. x = real k / 100)"


text \<open>One iteration of the counting loop of \<open>char_counts\<close>.\<close>

definition count_step :: "char \<Rightarrow> (char \<times> nat) list \<Rightarrow> (char \<times> nat) list" where
  "count_step char d = dict_set char ((case map_of d char of None \<Rightarrow> 0 | Some n \<Rightarrow> n) + 1) d"

text \<open>An \<open>AIManager\<close> without a model file, and two clock readings of one day.\<close>

definition no_model :: ai_manager where
  "no_model = \<lparr>model = None, scaler = None\<rparr>"

definition morning :: datetime where
  "morning = \<lparr>dt_year = 2024, dt_month = 1, dt_day = 15, dt_hour = 10, dt_minute = 30,
              dt_second = 45, dt_microsecond = 0, dt_posix = 1705314645\<rparr>"

definition evening :: datetime where
  "evening = \<lparr>dt_year = 2024, dt_month = 1, dt_day = 15, dt_hour = 22, dt_minute = 5,
              dt_second = 9, dt_microsecond = 250, dt_posix = 1705356309\<rparr>"

text \<open>
  A stand-in for the digest function in closed examples; the general statements hold for
  every function in its place.
\<close>

definition digest_stub :: "string \<Rightarrow> string" where
  "digest_stub s = replicate 64 CHR ''0''"

text \<open>The analysis that \<open>analyze_command\<close> computes when the key is not cached.\<close>

definition fresh_analysis :: "ai_manager \<Rightarrow> string \<Rightarrow> string \<Rightarrow> clock_reads \<Rightarrow> analysis" where
  "fresh_analysis mgr command ip clk =
     (validate_command mgr command (at_validate clk))
       \<lparr>an_ip := Some ip,
        an_timestamp := Some (isoformat (at_timestamp clk)),
        an_session_id := Some (ip @ ''_'' @ show_int (dt_posix (at_session clk))),
        an_attack_patterns := Some (detect_attack_patterns command),
        an_complexity_score := Some (calculate_complexity command)\<rparr>"

text \<open>Calls whose clock readings are all \<open>morning\<close>, or all \<open>evening\<close>.\<close>

definition clock_morning :: clock_reads where
  "clock_morning =
     \<lparr>at_validate = morning, at_timestamp = morning, at_session = morning, at_fallback = morning\<rparr>"

definition clock_evening :: clock_reads where
  "clock_evening =
     \<lparr>at_validate = evening, at_timestamp = evening, at_session = evening, at_fallback = evening\<rparr>"

text \<open>A loaded model whose \<open>predict\<close> flags every input as an anomaly.\<close>

definition alarm_model :: model_handle where
  "alarm_model =
     \<lparr>has_decision_function = False,
      decision_function = (\<lambda>v. Inl LibraryError),
      offset_0 = Inl LibraryError,
      predict = (\<lambda>v. Inr (- 1))\<rparr>"

definition alarm_manager :: ai_manager where
  "alarm_manager = \<lparr>model = Some alarm_model, scaler = None\<rparr>"

text \<open>A loaded model whose every call raises.\<close>

definition broken_model :: model_handle where
  "broken_model =
     \<lparr>has_decision_function = True,
      decision_function = (\<lambda>v. Inl LibraryError),
      offset_0 = Inl IndexError,
      predict = (\<lambda>v. Inl LibraryError)\<rparr>"

definition broken_manager :: ai_manager where
  "broken_manager = \<lparr>model = Some broken_model, scaler = None\<rparr>"

text \<open>A cache filled to capacity: 1000 entries under distinct keys, oldest first.\<close>

definition full_cache :: "(string \<times> analysis) list" where
  "full_cache =
     map (\<lambda>n. (replicate n CHR ''a'', fallback_analysis [] [] morning)) [0..<1000]"

definition full_analyzer :: ai_analyzer where
  "full_analyzer = \<lparr>manager = no_model, analysis_cache = full_cache, cache_size = 1000\<rparr>"

text \<open>A configured alert sink.\<close>

definition configured_sink :: telegram_manager where
  "configured_sink =
     \<lparr>bot_token = Some ''123456:token'', chat_id = Some ''424242'', max_message_length = 4096\<rparr>"

definition no_sink :: telegram_manager where
  "no_sink = \<lparr>bot_token = None, chat_id = None, max_message_length = 4096\<rparr>"

section \<open>Facts about strings and rounding\<close>













lemma cents_plus: "cents x \<Longrightarrow> y = real j / 100 \<Longrightarrow> cents (x + y)"
proof -
  assume "cents x" and y: "y = real j / 100"
  then obtain k where "x = real k / 100" by (auto simp: cents_def)
  with y have "x + y = real (k + j) / 100" by (simp add: add_divide_distrib)
  then show ?thesis unfolding cents_def by blast
qed

lemma cents_0: "cents 0"
  unfolding cents_def by (rule exI[of _ 0]) simp

lemma total_score_match: "cents (total_score ts) \<Longrightarrow> cents (total_score (score_match cat ts))"
proof (cases cat)
  case Cat_system_destruction
  assume "cents (total_score ts)"
  from cents_plus[OF this, of "0.3" 30] Cat_system_destruction show ?thesis
    by (simp add: total_score_def algebra_simps)
next
  case Cat_privilege_escalation
  assume "cents (total_score ts)"
  from cents_plus[OF this, of "0.25" 25] Cat_privilege_escalation show ?thesis
    by (simp add: total_score_def algebra_simps)
next
  case Cat_data_access
  assume "cents (total_score ts)"
  from cents_plus[OF this, of "0.2" 20] Cat_data_access show ?thesis
    by (simp add: total_score_def algebra_simps)
next
  case Cat_network_exploitation
  assume "cents (total_score ts)"
  from cents_plus[OF this, of "0.22" 22] Cat_network_exploitation show ?thesis
    by (simp add: total_score_def algebra_simps)
next
  case Cat_code_execution
  assume "cents (total_score ts)"
  from cents_plus[OF this, of "0.28" 28] Cat_code_execution show ?thesis
    by (simp add: total_score_def algebra_simps)
next
  case Cat_system_reconnaissance
  assume "cents (total_score ts)"
  from cents_plus[OF this, of "0.18" 18] Cat_system_reconnaissance show ?thesis
    by (simp add: total_score_def algebra_simps)
next
  case Cat_file_manipulation
  assume "cents (total_score ts)"
  from cents_plus[OF this, of "0.15" 15] Cat_file_manipulation show ?thesis
    by (simp add: total_score_def algebra_simps)
qed

lemma total_scan_category:
  "cents (total_score ts) \<Longrightarrow> cents (total_score (scan_category s cat ps ts))"
  unfolding scan_category_def
  by (induction ps arbitrary: ts) (simp_all add: total_score_match)

lemma total_scan_list:
  "cents (total_score ts) \<Longrightarrow>
   cents (total_score (fold (\<lambda>(cat, patterns) ts. scan_category s cat patterns ts) l ts))"
  by (induction l arbitrary: ts) (auto simp: total_scan_category)

lemma total_scan_patterns:
  "cents (total_score ts) \<Longrightarrow> cents (total_score (scan_patterns s ts))"
  unfolding scan_patterns_def by (rule total_scan_list)

lemma total_complexity_step: "cents (total_score (complexity_step c threat_scoring_init))"
proof -
  have "cents (0 + 0.2)" by (rule cents_plus[OF cents_0, of _ 20]) simp
  moreover have "cents (0 + 0.15)" by (rule cents_plus[OF cents_0, of _ 15]) simp
  ultimately show ?thesis using cents_0
    by (simp add: complexity_step_def threat_scoring_init_def total_score_def)
qed

lemma total_sp_add:
  "cents (total_score ts) \<Longrightarrow> y = real j / 100 \<Longrightarrow>
   cents (total_score (ts\<lparr>suspicious_patterns := suspicious_patterns ts + y\<rparr>))"
  using cents_plus[of "total_score ts" y j] by (simp add: total_score_def algebra_simps)

lemma total_ratio_step: "cents (total_score ts) \<Longrightarrow> cents (total_score (ratio_step c ts))"
  unfolding ratio_step_def using total_sp_add[of ts "0.2" 20] by simp

lemma total_chaining_step: "cents (total_score ts) \<Longrightarrow> cents (total_score (chaining_step c ts))"
  unfolding chaining_step_def using total_sp_add[of ts "0.15" 15] by simp

lemma total_substitution_step:
  "cents (total_score ts) \<Longrightarrow> cents (total_score (substitution_step c ts))"
  unfolding substitution_step_def using total_sp_add[of ts "0.18" 18] by simp

lemma total_quoting_step: "cents (total_score ts) \<Longrightarrow> cents (total_score (quoting_step c ts))"
  unfolding quoting_step_def using total_sp_add[of ts "0.12" 12] by simp

lemma total_ip_step: "cents (total_score ts) \<Longrightarrow> cents (total_score (ip_step ip ts))"
  unfolding ip_step_def using cents_plus[of "total_score ts" "0.08" 8]
  by (simp add: total_score_def algebra_simps)

lemma total_cents: "cents (total_score (threat_scoring_of command ip))"
  unfolding threat_scoring_of_def Let_def
  by (intro total_ip_step total_quoting_step total_substitution_step total_chaining_step
      total_scan_patterns total_ratio_step total_complexity_step)

lemma round_half_even_int: "round_half_even (of_int m) = m"
  by (simp add: round_half_even_def)

lemma py_round_cents:
  assumes "x = real k * 3 / 400"
  shows "py_round x 6 = x"
proof -
  have x6: "x * 10 ^ 6 = of_int (int k * 7500)" using assms by simp
  have "py_round x 6 = of_int (round_half_even (of_int (int k * 7500))) / 10 ^ 6"
    unfolding py_round_def x6 ..
  also have "\<dots> = of_int (int k * 7500) / 10 ^ 6"
    by (simp only: round_half_even_int)
  also have "\<dots> = x" using assms by simp
  finally show ?thesis .
qed

lemma py_round_1: "py_round 1 6 = 1"
proof -
  have "(1::real) * 10 ^ 6 = of_int 1000000" by simp
  then have "round_half_even (1 * 10 ^ 6) = 1000000" by (simp only: round_half_even_int)
  then show ?thesis by (simp add: py_round_def)
qed

lemma py_round_conf:
  "py_round 0.96 3 = 0.96" "py_round 0.88 3 = 0.88" "py_round 0.72 3 = 0.72" "py_round 0.52 3 = 0.52"
  by (simp_all add: py_round_def round_half_even_def)

lemma anomaly_exact:
  "py_round (min 1 (total_score (threat_scoring_of command ip) * 0.75)) 6 =
   min 1 (total_score (threat_scoring_of command ip) * 0.75)"
proof -
  from total_cents[of command ip] obtain k where
    k: "total_score (threat_scoring_of command ip) = real k / 100" by (auto simp: cents_def)
  show ?thesis
  proof (cases "total_score (threat_scoring_of command ip) * 0.75 \<le> 1")
    case True
    then have "min 1 (total_score (threat_scoring_of command ip) * 0.75) = real k * 3 / 400"
      using k by (simp add: min_def)
    then show ?thesis using py_round_cents[of _ k] by simp
  next
    case False
    then show ?thesis by (simp add: min_def py_round_1)
  qed
qed

section \<open>The entropy feature\<close>


lemma map_of_dict_set: "map_of (dict_set k v d) = (map_of d)(k \<mapsto> v)"
  by (induction d) (auto simp: fun_eq_iff)

lemma keys_dict_set: "fst ` set (dict_set k v d) = insert k (fst ` set d)"
  by (induction d) auto

lemma distinct_dict_set:
  "distinct (map fst d) \<Longrightarrow> distinct (map fst (dict_set k v d))"
  by (induction d) (auto simp: keys_dict_set)

lemma fold_count_distinct:
  "distinct (map fst d) \<Longrightarrow> distinct (map fst (fold count_step s d))"
  by (induction s arbitrary: d) (simp_all add: count_step_def distinct_dict_set)

lemma fold_count_keys: "fst ` set (fold count_step s d) = set s \<union> fst ` set d"
  by (induction s arbitrary: d) (simp_all add: count_step_def keys_dict_set)

lemma fold_count_value:
  "(case map_of (fold count_step s d) c of None \<Rightarrow> 0 | Some n \<Rightarrow> n) =
   (case map_of d c of None \<Rightarrow> 0 | Some n \<Rightarrow> n) + count_list s c"
  by (induction s arbitrary: d) (auto simp: count_step_def map_of_dict_set split: option.splits)

lemma char_counts_fold: "char_counts s = fold count_step s []"
  unfolding char_counts_def count_step_def ..

lemma char_counts_distinct: "distinct (map fst (char_counts s))"
  unfolding char_counts_fold by (rule fold_count_distinct) simp

lemma char_counts_keys: "fst ` set (char_counts s) = set s"
  unfolding char_counts_fold by (simp add: fold_count_keys)

lemma char_counts_set: "set (char_counts s) = (\<lambda>c. (c, count_list s c)) ` set s"
proof (rule set_eqI)
  fix p :: "char \<times> nat"
  obtain c n where p: "p = (c, n)" by (cases p)
  have val: "(case map_of (char_counts s) c of None \<Rightarrow> 0 | Some n \<Rightarrow> n) = count_list s c"
    using fold_count_value[of s "[]" c] by (simp add: char_counts_fold)
  show "p \<in> set (char_counts s) \<longleftrightarrow> p \<in> (\<lambda>c. (c, count_list s c)) ` set s"
  proof
    assume "p \<in> set (char_counts s)"
    then have m: "map_of (char_counts s) c = Some n"
      using p char_counts_distinct by simp
    then have "c \<in> set s" using char_counts_keys[of s] by (metis map_of_eq_None_iff option.distinct(1))
    moreover from m val have "n = count_list s c" by simp
    ultimately show "p \<in> (\<lambda>c. (c, count_list s c)) ` set s" using p by blast
  next
    assume "p \<in> (\<lambda>c. (c, count_list s c)) ` set s"
    then have c: "c \<in> set s" and n: "n = count_list s c" using p by auto
    from c have "c \<in> fst ` set (char_counts s)" by (simp only: char_counts_keys)
    then obtain m where m: "map_of (char_counts s) c = Some m"
      by (metis map_of_eq_None_iff not_Some_eq)
    with val n have "m = n" by simp
    with m show "p \<in> set (char_counts s)" using p by (simp add: map_of_SomeD)
  qed
qed

lemma foldl_minus:
  "foldl (\<lambda>e (c::nat). if c > 0 then e - f c else e) (a::real) xs =
   a - sum_list (map (\<lambda>c. if c > 0 then f c else 0) xs)"
  by (induction xs arbitrary: a) simp_all

lemma shannon_entropy_sum:
  "shannon_entropy s =
   - (\<Sum>c\<in>set s. (real (count_list s c) / real (length s)) *
                   log 2 (real (count_list s c) / real (length s)))"
proof -
  let ?f = "\<lambda>k::nat. (real k / real (length s)) * log 2 (real k / real (length s))"
  let ?g = "\<lambda>k::nat. if k > 0 then ?f k else 0"
  have "shannon_entropy s = 0 - sum_list (map ?g (map snd (char_counts s)))"
    unfolding shannon_entropy_def Let_def by (rule foldl_minus)
  also have "sum_list (map ?g (map snd (char_counts s))) =
             sum_list (map (?g \<circ> snd) (char_counts s))" by simp
  also have "\<dots> = sum (?g \<circ> snd) (set (char_counts s))"
    using char_counts_distinct[of s] by (simp add: sum_list_distinct_conv_sum_set distinct_map)
  also have "\<dots> = sum (?g \<circ> snd) ((\<lambda>c. (c, count_list s c)) ` set s)"
    by (simp only: char_counts_set)
  also have "\<dots> = (\<Sum>c\<in>set s. (?g \<circ> snd) (c, count_list s c))"
    by (subst sum.reindex) (auto simp: inj_on_def)
  also have "\<dots> = (\<Sum>c\<in>set s. ?f (count_list s c))"
    by (rule sum.cong) (auto simp: count_list_0_iff)
  finally show ?thesis by simp
qed


lemma count_pos: "c \<in> set s \<Longrightarrow> 0 < count_list s c"
  using count_list_0_iff[of s c] by auto

lemma count_sum_length: "(\<Sum>c\<in>set s. count_list s c) = length s"
  using sum_list_map_eq_sum_count[of "\<lambda>_. 1::nat" s] by (simp add: sum_list_triv)

lemma log2_prod:
  "finite S \<Longrightarrow> (\<And>c. c \<in> S \<Longrightarrow> 0 < f c) \<Longrightarrow>
   log 2 (\<Prod>c\<in>S. f c) = (\<Sum>c\<in>S. log 2 (f c))"
proof (induction S rule: finite_induct)
  case empty
  show ?case by simp
next
  case (insert x F)
  have fx: "0 < f x" using insert.prems by simp
  have pF: "0 < (\<Prod>c\<in>F. f c)" using insert.prems by (simp add: prod_pos)
  have IH: "log 2 (\<Prod>c\<in>F. f c) = (\<Sum>c\<in>F. log 2 (f c))"
    using insert.IH insert.prems by simp
  have "log 2 (\<Prod>c\<in>insert x F. f c) = log 2 (f x * (\<Prod>c\<in>F. f c))"
    using insert.hyps by simp
  also have "\<dots> = log 2 (f x) + log 2 (\<Prod>c\<in>F. f c)"
    using fx pF by (rule log_mult_pos)
  finally show ?case using IH insert.hyps by simp
qed

lemma entropy_closed:
  assumes "s \<noteq> []"
  shows "shannon_entropy s =
         log 2 (real (length s)) -
         log 2 (\<Prod>c\<in>set s. real (count_list s c) ^ count_list s c) / real (length s)"
proof -
  let ?n = "real (length s)"
  let ?k = "\<lambda>c. real (count_list s c)"
  have n: "0 < ?n" using assms by simp
  have k: "\<And>c. c \<in> set s \<Longrightarrow> 0 < ?k c" by (simp add: count_pos)
  have "(\<Sum>c\<in>set s. (?k c / ?n) * log 2 (?k c / ?n)) =
        (\<Sum>c\<in>set s. (?k c * log 2 (?k c) - ?k c * log 2 ?n) / ?n)"
  proof (rule sum.cong)
    fix c assume "c \<in> set s"
    then have eq: "log 2 (?k c / ?n) = log 2 (?k c) - log 2 ?n"
      using n k by (simp add: log_divide_pos)
    show "(?k c / ?n) * log 2 (?k c / ?n) = (?k c * log 2 (?k c) - ?k c * log 2 ?n) / ?n"
      unfolding eq by (simp add: right_diff_distrib diff_divide_distrib)
  qed simp
  also have "\<dots> = ((\<Sum>c\<in>set s. ?k c * log 2 (?k c)) - (\<Sum>c\<in>set s. ?k c * log 2 ?n)) / ?n"
    by (simp only: sum_divide_distrib[symmetric] sum_subtractf)
  also have "(\<Sum>c\<in>set s. ?k c * log 2 ?n) = (\<Sum>c\<in>set s. ?k c) * log 2 ?n"
    by (simp only: sum_distrib_right)
  also have "(\<Sum>c\<in>set s. ?k c) = ?n"
    using count_sum_length[of s] by (metis of_nat_sum)
  also have "(\<Sum>c\<in>set s. ?k c * log 2 (?k c)) = (\<Sum>c\<in>set s. log 2 (?k c ^ count_list s c))"
    by (rule sum.cong) (simp_all add: log_nat_power)
  also have "\<dots> = log 2 (\<Prod>c\<in>set s. ?k c ^ count_list s c)"
    using k by (subst log2_prod) simp_all
  finally have "shannon_entropy s =
      - ((log 2 (\<Prod>c\<in>set s. ?k c ^ count_list s c) - ?n * log 2 ?n) / ?n)"
    by (simp add: shannon_entropy_sum)
  then show ?thesis using n by (simp add: diff_divide_distrib)
qed

lemma entropy_empty: "shannon_entropy [] = 0"
  by (simp add: shannon_entropy_def char_counts_def)

lemma entropy_gt_4_iff:
  "shannon_entropy s > 4 \<longleftrightarrow>
   16 ^ length s * (\<Prod>c\<leftarrow>remdups s. count_list s c ^ count_list s c) < length s ^ length s"
proof (cases "s = []")
  case True
  then show ?thesis by (simp add: entropy_empty)
next
  case False
  let ?n = "length s"
  let ?P = "\<Prod>c\<in>set s. count_list s c ^ count_list s c"
  have n: "0 < ?n" using False by simp
  have P: "0 < ?P" by (rule prod_pos) (simp add: count_pos)
  have rP: "0 < real ?P" using P by (simp only: of_nat_0_less_iff)
  have Pl: "(\<Prod>c\<leftarrow>remdups s. count_list s c ^ count_list s c) = ?P"
    using prod.distinct_set_conv_list[of "remdups s" "\<lambda>c. count_list s c ^ count_list s c"]
    by simp
  have Pr: "(\<Prod>c\<in>set s. real (count_list s c) ^ count_list s c) = real ?P" by simp
  have "shannon_entropy s > 4 \<longleftrightarrow> 4 < log 2 (real ?n) - log 2 (real ?P) / real ?n"
    by (simp only: entropy_closed[OF False] Pr)
  also have "\<dots> \<longleftrightarrow> real ?n * 4 + log 2 (real ?P) < real ?n * log 2 (real ?n)"
    using n by (simp add: field_simps)
  also have "real ?n * 4 = log 2 (16 ^ ?n)"
  proof -
    have "log 2 (16 ^ ?n) = real ?n * log 2 16" by (simp add: log_nat_power)
    moreover have "log 2 16 = 4"
    proof -
      have "log 2 ((2::real) ^ 4) = real 4 * log 2 2" by (rule log_nat_power) simp
      then show ?thesis by simp
    qed
    ultimately show ?thesis by simp
  qed
  also have "log 2 (16 ^ ?n) + log 2 (real ?P) = log 2 (16 ^ ?n * real ?P)"
    by (rule log_mult_pos[symmetric]) (simp, rule rP)
  also have "real ?n * log 2 (real ?n) = log 2 (real ?n ^ ?n)"
    by (simp add: log_nat_power)
  also have "log 2 (16 ^ ?n * real ?P) < log 2 (real ?n ^ ?n) \<longleftrightarrow>
             16 ^ ?n * real ?P < real ?n ^ ?n"
  proof (rule log_less_cancel_iff)
    show "(1::real) < 2" by simp
    show "0 < 16 ^ ?n * real ?P" using rP by (rule mult_pos_pos[OF zero_less_power, rotated]) simp
    show "0 < real ?n ^ ?n" using n by simp
  qed
  also have "\<dots> \<longleftrightarrow> 16 ^ ?n * ?P < ?n ^ ?n"
  proof -
    have "16 ^ ?n * real ?P = real (16 ^ ?n * ?P)" by simp
    moreover have "real ?n ^ ?n = real (?n ^ ?n)" by simp
    ultimately show ?thesis by (simp only: of_nat_less_iff)
  qed
  finally show ?thesis by (simp only: Pl)
qed

section \<open>Score range and threat tier\<close>


lemma heuristic_score_bounds: "0 \<le> heuristic_score fs \<and> heuristic_score fs \<le> 1"
  by (simp add: heuristic_score_def Let_def)

lemma model_score_bounds: "model_score mgr m fs = Inr s \<Longrightarrow> 0 \<le> s \<and> s \<le> 1"
  by (auto simp: model_score_def split: sum.splits option.splits if_splits)

lemma predict_anomaly_bounds: "0 \<le> predict_anomaly mgr fs \<and> predict_anomaly mgr fs \<le> 1"
  using heuristic_score_bounds[of fs] model_score_bounds[of mgr _ fs]
  by (auto simp: predict_anomaly_def split: option.splits sum.splits)

lemma total_nonneg: "0 \<le> total_score (threat_scoring_of command ip)"
  using total_cents[of command ip] by (auto simp: cents_def)

lemma tier_of_round: "py_round (snd (tier_of x)) 3 = snd (tier_of x)"
  by (simp add: tier_of_def py_round_def round_half_even_def)

text \<open>
  Claim C1, as the code has it. Every score that \<open>analyze_command_threat\<close> returns lies
  in \<open>[0,1]\<close>, and its tier and confidence are the bucket of that score with the
  boundaries 0.85, 0.65 and 0.35 and the confidences 0.96, 0.88, 0.72 and 0.52. Every
  score that \<open>AIManager.validate_command\<close> returns lies in \<open>[0,1]\<close> as well, but its tier
  is the bucket with the boundaries 0.8, 0.6 and 0.4 of \<open>get_threat_level\<close>, and that
  path produces no confidence.
\<close>

theorem threat_tier_buckets:
  "(0 \<le> anomaly_score (analyze_command_threat sha256 command ip now_sig now_ts) \<and>
    anomaly_score (analyze_command_threat sha256 command ip now_sig now_ts) \<le> 1 \<and>
    (threat_level (analyze_command_threat sha256 command ip now_sig now_ts),
     confidence (analyze_command_threat sha256 command ip now_sig now_ts)) =
      (if anomaly_score (analyze_command_threat sha256 command ip now_sig now_ts) \<ge> 0.85
         then (''CRITICAL'', 0.96)
       else if anomaly_score (analyze_command_threat sha256 command ip now_sig now_ts) \<ge> 0.65
         then (''HIGH'', 0.88)
       else if anomaly_score (analyze_command_threat sha256 command ip now_sig now_ts) \<ge> 0.35
         then (''MEDIUM'', 0.72)
       else (''LOW'', 0.52))) \<and>
   (0 \<le> an_anomaly_score (validate_command mgr cmd now) \<and>
    an_anomaly_score (validate_command mgr cmd now) \<le> 1 \<and>
    an_threat_level (validate_command mgr cmd now) =
      (if an_anomaly_score (validate_command mgr cmd now) \<ge> 0.8 then ''CRITICAL''
       else if an_anomaly_score (validate_command mgr cmd now) \<ge> 0.6 then ''HIGH''
       else if an_anomaly_score (validate_command mgr cmd now) \<ge> 0.4 then ''MEDIUM''
       else ''LOW''))"
proof -
  let ?x = "min 1 (total_score (threat_scoring_of command ip) * 0.75)"
  have x: "0 \<le> ?x \<and> ?x \<le> 1" using total_nonneg[of command ip] by simp
  have score: "anomaly_score (analyze_command_threat sha256 command ip now_sig now_ts) = ?x"
    using anomaly_exact[of command ip]
    by (simp add: analyze_command_threat_def Let_def split: prod.splits)
  have tier: "(threat_level (analyze_command_threat sha256 command ip now_sig now_ts),
               confidence (analyze_command_threat sha256 command ip now_sig now_ts)) =
              (fst (tier_of ?x), py_round (snd (tier_of ?x)) 3)"
    by (simp add: analyze_command_threat_def Let_def split: prod.splits)
  have conf: "(fst (tier_of ?x), py_round (snd (tier_of ?x)) 3) = tier_of ?x"
    by (simp add: tier_of_round)
  have first: "0 \<le> anomaly_score (analyze_command_threat sha256 command ip now_sig now_ts) \<and>
    anomaly_score (analyze_command_threat sha256 command ip now_sig now_ts) \<le> 1 \<and>
    (threat_level (analyze_command_threat sha256 command ip now_sig now_ts),
     confidence (analyze_command_threat sha256 command ip now_sig now_ts)) =
      (if anomaly_score (analyze_command_threat sha256 command ip now_sig now_ts) \<ge> 0.85
         then (''CRITICAL'', 0.96)
       else if anomaly_score (analyze_command_threat sha256 command ip now_sig now_ts) \<ge> 0.65
         then (''HIGH'', 0.88)
       else if anomaly_score (analyze_command_threat sha256 command ip now_sig now_ts) \<ge> 0.35
         then (''MEDIUM'', 0.72)
       else (''LOW'', 0.52))"
    unfolding score tier conf using x by (simp add: tier_of_def)
  have second: "0 \<le> an_anomaly_score (validate_command mgr cmd now) \<and>
    an_anomaly_score (validate_command mgr cmd now) \<le> 1 \<and>
    an_threat_level (validate_command mgr cmd now) =
      (if an_anomaly_score (validate_command mgr cmd now) \<ge> 0.8 then ''CRITICAL''
       else if an_anomaly_score (validate_command mgr cmd now) \<ge> 0.6 then ''HIGH''
       else if an_anomaly_score (validate_command mgr cmd now) \<ge> 0.4 then ''MEDIUM''
       else ''LOW'')"
    using predict_anomaly_bounds[of mgr "extract_features cmd"]
    by (simp add: validate_command_def Let_def get_threat_level_def)
  from first second show ?thesis by (rule conjI)
qed


lemma ex_detected:
  "filter (\<lambda>pattern. str_in pattern (lower ''sudo wget curl nmap'')) suspicious_pattern_list =
   [''sudo'', ''curl'', ''wget'', ''nmap'']"
  by code_simp

lemma ex_special:
  "length (filter (\<lambda>c. \<not> isalnum c \<and> \<not> isspace c) ''sudo wget curl nmap'') = 0"
  by code_simp

lemma ex_path: "\<not> (str_in ''/'' ''sudo wget curl nmap'' \<or> str_in [CHR 0x5C] ''sudo wget curl nmap'')"
  by code_simp

lemma ex_entropy: "\<not> shannon_entropy ''sudo wget curl nmap'' > 4"
proof -
  have len: "length ''sudo wget curl nmap'' = 19" by simp
  have pr: "(\<Prod>c\<leftarrow>remdups ''sudo wget curl nmap''.
              count_list ''sudo wget curl nmap'' c ^ count_list ''sudo wget curl nmap'' c) = 108"
    by code_simp
  show ?thesis unfolding entropy_gt_4_iff len pr by simp
qed

lemma heuristic_score_extract:
  "heuristic_score (extract_features command) =
     min 1 ((if length command > 50 then 0.2 else 0) +
            real (length (filter (\<lambda>pattern. str_in pattern (lower command)) suspicious_pattern_list)) * 0.15 +
            (if length (filter (\<lambda>c. \<not> isalnum c \<and> \<not> isspace c) command) > 5 then 0.1 else 0) +
            (if shannon_entropy command > 4 then 0.2 else 0) +
            (if str_in ''/'' command \<or> str_in [CHR 0x5C] command then 0.1 else 0))"
  by (simp add: heuristic_score_def extract_features_def Let_def)

lemma ex_heuristic: "heuristic_score (extract_features ''sudo wget curl nmap'') = 0.6"
proof -
  have len: "length ''sudo wget curl nmap'' = 19" by simp
  show ?thesis
    unfolding heuristic_score_extract ex_detected ex_special len
    using ex_entropy ex_path by simp
qed

text \<open>
  Claim C1 as stated fails on the \<open>AIManager\<close> path: four matched patterns score 0.6,
  which \<open>get_threat_level\<close> calls HIGH although it is below 0.65.
\<close>

theorem tier_thresholds_counterexample:
  "an_anomaly_score (validate_command no_model ''sudo wget curl nmap'' morning) = 0.6 \<and>
   an_threat_level (validate_command no_model ''sudo wget curl nmap'' morning) = ''HIGH'' \<and>
   \<not> an_anomaly_score (validate_command no_model ''sudo wget curl nmap'' morning) \<ge> 0.65"
  using ex_heuristic
  by (simp add: validate_command_def Let_def predict_anomaly_def no_model_def get_threat_level_def)

lemma ex_breakdown:
  "total_score (threat_scoring_of ''sudo;;'' ''1.2.3.4'') = 0.68"
  by code_simp

theorem threat_tier_buckets_witness:
  "threat_level (analyze_command_threat digest_stub ''sudo;;'' ''1.2.3.4'' morning evening) =
     ''MEDIUM'' \<and>
   confidence (analyze_command_threat digest_stub ''sudo;;'' ''1.2.3.4'' morning evening) = 0.72 \<and>
   an_threat_level (validate_command no_model ''sudo wget curl nmap'' morning) = ''HIGH''"
proof -
  have "anomaly_score (analyze_command_threat digest_stub ''sudo;;'' ''1.2.3.4'' morning evening)
        = 0.51"
    using anomaly_exact[of "''sudo;;''" "''1.2.3.4''"]
    by (simp add: analyze_command_threat_def Let_def case_prod_beta ex_breakdown)
  moreover have "an_anomaly_score (validate_command no_model ''sudo wget curl nmap'' morning) = 0.6"
    using ex_heuristic by (simp add: validate_command_def Let_def predict_anomaly_def no_model_def)
  ultimately show ?thesis
    using threat_tier_buckets[of digest_stub "''sudo;;''" "''1.2.3.4''" morning evening
        no_model "''sudo wget curl nmap''" morning]
    by simp
qed

section \<open>Attack vector\<close>

text \<open>
  Claim C5. The attack-vector label of \<open>analyze_command_threat\<close> is decided by the buckets
  of the returned breakdown in a fixed order: system modification, privilege escalation,
  code execution, data access, network activity, information gathering, and
  \<open>Generic Command\<close> when no bucket exceeds its threshold; the first that does wins.
\<close>

theorem attack_vector_priority:
  "attack_vector (analyze_command_threat sha256 command ip now_sig now_ts) =
     (if system_modification
           (scoring_breakdown (analyze_command_threat sha256 command ip now_sig now_ts)) > 0.25
        then ''System Destruction''
      else if privilege_escalation
           (scoring_breakdown (analyze_command_threat sha256 command ip now_sig now_ts)) > 0.2
        then ''Privilege Escalation''
      else if code_execution
           (scoring_breakdown (analyze_command_threat sha256 command ip now_sig now_ts)) > 0.25
        then ''Code Injection''
      else if data_access
           (scoring_breakdown (analyze_command_threat sha256 command ip now_sig now_ts)) > 0.18
        then ''Data Exfiltration''
      else if network_activity
           (scoring_breakdown (analyze_command_threat sha256 command ip now_sig now_ts)) > 0.2
        then ''Network Intrusion''
      else if information_gathering
           (scoring_breakdown (analyze_command_threat sha256 command ip now_sig now_ts)) > 0.15
        then ''Reconnaissance''
      else ''Generic Command'')"
proof -
  have sb: "scoring_breakdown (analyze_command_threat sha256 command ip now_sig now_ts) =
            threat_scoring_of command ip"
    by (simp add: analyze_command_threat_def Let_def case_prod_beta)
  have av: "attack_vector (analyze_command_threat sha256 command ip now_sig now_ts) =
            attack_vector_of (threat_scoring_of command ip)"
    by (simp add: analyze_command_threat_def Let_def case_prod_beta)
  show ?thesis unfolding sb av attack_vector_of_def ..
qed

lemma ex_vector_buckets:
  "system_modification (threat_scoring_of ''mkfs; sudo id'' ''10.0.0.7'') = 0.3"
  "privilege_escalation (threat_scoring_of ''mkfs; sudo id'' ''10.0.0.7'') = 0.25"
  "information_gathering (threat_scoring_of ''mkfs; sudo id'' ''10.0.0.7'') = 0.18"
  by code_simp+

text \<open>
  A command that exceeds three thresholds at once (system modification, privilege
  escalation, information gathering) is labelled by the first of them.
\<close>

theorem attack_vector_priority_witness:
  "attack_vector (analyze_command_threat digest_stub ''mkfs; sudo id'' ''10.0.0.7'' morning evening)
     = ''System Destruction'' \<and>
   privilege_escalation (scoring_breakdown
     (analyze_command_threat digest_stub ''mkfs; sudo id'' ''10.0.0.7'' morning evening)) > 0.2 \<and>
   information_gathering (scoring_breakdown
     (analyze_command_threat digest_stub ''mkfs; sudo id'' ''10.0.0.7'' morning evening)) > 0.15"
proof -
  have "scoring_breakdown
          (analyze_command_threat digest_stub ''mkfs; sudo id'' ''10.0.0.7'' morning evening) =
        threat_scoring_of ''mkfs; sudo id'' ''10.0.0.7''"
    by (simp add: analyze_command_threat_def Let_def case_prod_beta)
  then show ?thesis
    using attack_vector_priority[of digest_stub "''mkfs; sudo id''" "''10.0.0.7''" morning evening]
    by (simp add: ex_vector_buckets)
qed


section \<open>Determinism of \<open>analyze_command_threat\<close>\<close>



lemma analysis_timestamp_eq:
  "analysis_timestamp (analyze_command_threat sha256 command ip now_sig now_ts) = isoformat now_ts"
  by (simp add: analyze_command_threat_def Let_def case_prod_beta)

lemma same_day_signature:
  "same_day s t \<Longrightarrow> threat_signature_of sha256 command ip s = threat_signature_of sha256 command ip t"
  by (simp add: same_day_def threat_signature_of_def strftime_Ymd_def)

lemma analyze_same_day:
  "same_day s1 s2 \<Longrightarrow>
   analyze_command_threat sha256 command ip s1 t1 =
   (analyze_command_threat sha256 command ip s2 t2)\<lparr>analysis_timestamp := isoformat t1\<rparr>"
  using same_day_signature[of s1 s2 sha256 command ip]
  by (simp add: analyze_command_threat_def Let_def case_prod_beta)

lemma ex_iso: "isoformat morning \<noteq> isoformat evening"
  by code_simp

lemma ex_same_day: "same_day morning evening"
  by code_simp

section \<open>Appending to a command\<close>






































section \<open>The analysis cache\<close>

lemma dict_set_absent: "map_of d k = None \<Longrightarrow> dict_set k v d = d @ [(k, v)]"
proof (induction d)
  case Nil
  show ?case by simp
next
  case (Cons p d)
  then show ?case by (cases p) (auto split: if_splits)
qed

lemma length_dict_set: "length (dict_set k v d) \<le> Suc (length d)"
  by (induction d) auto

lemma dict_del_absent: "k \<notin> fst ` set d \<Longrightarrow> dict_del k d = d"
  unfolding dict_del_def by (induction d) auto

lemma evict_oldest:
  "distinct (map fst d) \<Longrightarrow> fold dict_del (take n (map fst d)) d = drop n d"
proof (induction d arbitrary: n)
  case Nil
  show ?case by simp
next
  case (Cons p d)
  show ?case
  proof (cases n)
    case 0
    then show ?thesis by simp
  next
    case (Suc m)
    from Cons.prems have notin: "fst p \<notin> fst ` set d" and dist: "distinct (map fst d)"
      by simp_all
    have "dict_del (fst p) (p # d) = d"
      using dict_del_absent[OF notin] by (simp add: dict_del_def)
    then have "fold dict_del (take n (map fst (p # d))) (p # d) =
               fold dict_del (take m (map fst d)) d"
      using Suc by simp
    also have "\<dots> = drop m d" using dist by (rule Cons.IH)
    finally show ?thesis using Suc by simp
  qed
qed

lemma distinct_drop_keys: "distinct (map fst d) \<Longrightarrow> distinct (map fst (drop n d))"
  by (simp add: drop_map[symmetric] distinct_drop)

lemma cache_analysis_lookup:
  "map_of (analysis_cache (cache_analysis st key a)) key = Some a"
  by (simp add: cache_analysis_def Let_def map_of_dict_set)

lemma cache_analysis_fields:
  "manager (cache_analysis st key a) = manager st"
  "cache_size (cache_analysis st key a) = cache_size st"
  by (simp_all add: cache_analysis_def Let_def)

lemma cache_analysis_cases:
  assumes "distinct (dict_keys (analysis_cache st))"
  shows "analysis_cache (cache_analysis st key a) =
         dict_set key a
           (if cache_size st \<le> length (analysis_cache st)
            then drop (cache_size st div 5) (analysis_cache st) else analysis_cache st)"
  using assms evict_oldest[of "analysis_cache st" "cache_size st div 5"]
  by (simp add: cache_analysis_def Let_def dict_keys_def)

lemma cache_analysis_distinct:
  assumes "distinct (dict_keys (analysis_cache st))"
  shows "distinct (dict_keys (analysis_cache (cache_analysis st key a)))"
  unfolding cache_analysis_cases[OF assms] dict_keys_def
  using assms by (auto simp: dict_keys_def intro!: distinct_dict_set distinct_drop_keys)

lemma cache_analysis_bound:
  assumes "distinct (dict_keys (analysis_cache st))"
      and "length (analysis_cache st) \<le> cache_size st"
      and "5 \<le> cache_size st"
  shows "length (analysis_cache (cache_analysis st key a)) \<le> cache_size st"
proof (cases "cache_size st \<le> length (analysis_cache st)")
  case True
  with assms(2) have full: "length (analysis_cache st) = cache_size st" by simp
  have "1 \<le> cache_size st div 5" using assms(3) by simp
  then have "Suc (length (drop (cache_size st div 5) (analysis_cache st))) \<le> cache_size st"
    using full assms(3) by simp
  then show ?thesis
    unfolding cache_analysis_cases[OF assms(1)] using True
    using length_dict_set[of key a "drop (cache_size st div 5) (analysis_cache st)"]
    by simp
next
  case False
  then have "Suc (length (analysis_cache st)) \<le> cache_size st" by simp
  then show ?thesis
    unfolding cache_analysis_cases[OF assms(1)] using False
    using length_dict_set[of key a "analysis_cache st"]
    by simp
qed

lemma cache_analysis_overflow:
  assumes "distinct (dict_keys (analysis_cache st))"
      and "length (analysis_cache st) = cache_size st"
      and "map_of (analysis_cache st) key = None"
  shows "analysis_cache (cache_analysis st key a) =
         drop (cache_size st div 5) (analysis_cache st) @ [(key, a)]"
proof -
  have "key \<notin> fst ` set (analysis_cache st)"
    using assms(3) by (simp add: map_of_eq_None_iff)
  then have "key \<notin> fst ` set (drop (cache_size st div 5) (analysis_cache st))"
    using set_drop_subset[of "cache_size st div 5" "analysis_cache st"] by auto
  then have "map_of (drop (cache_size st div 5) (analysis_cache st)) key = None"
    by (simp add: map_of_eq_None_iff)
  then show ?thesis
    unfolding cache_analysis_cases[OF assms(1)] using assms(2)
    by (simp add: dict_set_absent)
qed

section \<open>\<open>analyze_command\<close>: hits and misses\<close>

lemma analyze_command_hit:
  "map_of (analysis_cache st) (make_cache_key ip command) = Some a \<Longrightarrow>
   analyze_command st command ip clk = Inr (a, st)"
  by (simp add: analyze_command_def analyze_command_try_def Let_def)

lemma analyze_command_miss:
  "map_of (analysis_cache st) (make_cache_key ip command) = None \<Longrightarrow>
   analyze_command st command ip clk =
   Inr (fresh_analysis (manager st) command ip clk,
        cache_analysis st (make_cache_key ip command) (fresh_analysis (manager st) command ip clk))"
  by (simp add: analyze_command_def analyze_command_try_def Let_def fresh_analysis_def)

lemma analyze_command_returns: "\<exists>a st'. analyze_command st command ip clk = Inr (a, st')"
  by (cases "map_of (analysis_cache st) (make_cache_key ip command)")
     (simp_all add: analyze_command_hit analyze_command_miss)

lemma second_call_cached:
  assumes "analyze_command st command ip clk1 = Inr (a, st1)"
  shows "analyze_command st1 command ip clk2 = Inr (a, st1)"
proof (cases "map_of (analysis_cache st) (make_cache_key ip command)")
  case None
  from assms have a: "a = fresh_analysis (manager st) command ip clk1"
    and st1: "st1 = cache_analysis st (make_cache_key ip command) a"
    by (auto simp: analyze_command_miss[OF None])
  have "map_of (analysis_cache st1) (make_cache_key ip command) = Some a"
    unfolding st1 by (rule cache_analysis_lookup)
  then show ?thesis by (rule analyze_command_hit)
next
  case (Some b)
  with assms have "a = b" "st1 = st" by (simp_all add: analyze_command_hit)
  with Some show ?thesis by (simp add: analyze_command_hit)
qed

lemma fresh_analysis_clock:
  "fresh_analysis mgr command ip clk2 =
   (fresh_analysis mgr command ip clk1)
     \<lparr>an_analysis_timestamp := Some (isoformat (at_validate clk2)),
      an_timestamp := Some (isoformat (at_timestamp clk2)),
      an_session_id := Some (ip @ ''_'' @ show_int (dt_posix (at_session clk2)))\<rparr>"
  by (simp add: fresh_analysis_def validate_command_def Let_def)

lemma analyze_command_invariant:
  assumes "distinct (dict_keys (analysis_cache st))"
      and "length (analysis_cache st) \<le> cache_size st"
      and "5 \<le> cache_size st"
      and "analyze_command st command ip clk = Inr (a, st')"
  shows "distinct (dict_keys (analysis_cache st')) \<and>
         length (analysis_cache st') \<le> cache_size st' \<and> cache_size st' = cache_size st"
proof (cases "map_of (analysis_cache st) (make_cache_key ip command)")
  case None
  from assms(4) have "st' = cache_analysis st (make_cache_key ip command)
                              (fresh_analysis (manager st) command ip clk)"
    by (auto simp: analyze_command_miss[OF None])
  then show ?thesis
    using cache_analysis_distinct[OF assms(1)] cache_analysis_bound[OF assms(1-3)]
    by (simp add: cache_analysis_fields)
next
  case (Some b)
  with assms(4) have "st' = st" by (simp add: analyze_command_hit)
  with assms show ?thesis by simp
qed

section \<open>Claims about the analysis cache\<close>

lemma init_miss: "map_of (analysis_cache (ai_analyzer_init mgr)) key = None"
  by (simp add: ai_analyzer_init_def)

lemma init_manager: "manager (ai_analyzer_init mgr) = mgr"
  by (simp add: ai_analyzer_init_def)

lemma init_invariant:
  "distinct (dict_keys (analysis_cache (ai_analyzer_init mgr))) \<and>
   length (analysis_cache (ai_analyzer_init mgr)) \<le> cache_size (ai_analyzer_init mgr) \<and>
   cache_size (ai_analyzer_init mgr) = 1000"
  by (simp add: ai_analyzer_init_def dict_keys_def)

text \<open>
  Claim C6. The cache of an analyzer with capacity 1000 never holds more than 1000
  entries. A call of \<open>_cache_analysis\<close> on a cache below capacity only stores the entry. On a
  cache at capacity it first removes the 200 oldest entries in insertion order, so storing a
  new key, the 1001st, leaves 801 entries: the newest 800 and the new one at the end. Every
  call of \<open>analyze_command\<close> keeps the bound.
\<close>

theorem cache_bounded:
  assumes "distinct (dict_keys (analysis_cache st))"
      and "length (analysis_cache st) \<le> cache_size st"
      and "cache_size st = 1000"
  shows "length (analysis_cache (cache_analysis st key a)) \<le> 1000 \<and>
         distinct (dict_keys (analysis_cache (cache_analysis st key a))) \<and>
         cache_size (cache_analysis st key a) = 1000 \<and>
         (length (analysis_cache st) < 1000 \<longrightarrow>
            analysis_cache (cache_analysis st key a) = dict_set key a (analysis_cache st)) \<and>
         (length (analysis_cache st) = 1000 \<and> map_of (analysis_cache st) key = None \<longrightarrow>
            analysis_cache (cache_analysis st key a) = drop 200 (analysis_cache st) @ [(key, a)] \<and>
            length (analysis_cache (cache_analysis st key a)) = 801) \<and>
         (\<forall>command ip clk r st'.
            analyze_command st command ip clk = Inr (r, st') \<longrightarrow>
            length (analysis_cache st') \<le> 1000 \<and> distinct (dict_keys (analysis_cache st')) \<and>
            cache_size st' = 1000)"
proof -
  have five: "5 \<le> cache_size st" using assms(3) by simp
  have b: "length (analysis_cache (cache_analysis st key a)) \<le> 1000"
    using cache_analysis_bound[OF assms(1,2) five, of key a] assms(3) by simp
  have d: "distinct (dict_keys (analysis_cache (cache_analysis st key a)))"
    using assms(1) by (rule cache_analysis_distinct)
  have c: "cache_size (cache_analysis st key a) = 1000"
    using assms(3) by (simp add: cache_analysis_fields)
  have below: "length (analysis_cache st) < 1000 \<longrightarrow>
      analysis_cache (cache_analysis st key a) = dict_set key a (analysis_cache st)"
    unfolding cache_analysis_cases[OF assms(1)] using assms(3) by simp
  have full: "length (analysis_cache st) = 1000 \<and> map_of (analysis_cache st) key = None \<longrightarrow>
      analysis_cache (cache_analysis st key a) = drop 200 (analysis_cache st) @ [(key, a)] \<and>
      length (analysis_cache (cache_analysis st key a)) = 801"
  proof
    assume h: "length (analysis_cache st) = 1000 \<and> map_of (analysis_cache st) key = None"
    then have len: "length (analysis_cache st) = cache_size st" using assms(3) by simp
    from cache_analysis_overflow[OF assms(1) len, of key a] h assms(3)
    have eq: "analysis_cache (cache_analysis st key a) = drop 200 (analysis_cache st) @ [(key, a)]"
      by simp
    moreover have "length (drop 200 (analysis_cache st) @ [(key, a)]) = 801"
      using h by simp
    ultimately show "analysis_cache (cache_analysis st key a) =
        drop 200 (analysis_cache st) @ [(key, a)] \<and>
        length (analysis_cache (cache_analysis st key a)) = 801"
      by simp
  qed
  have calls: "\<forall>command ip clk r st'.
      analyze_command st command ip clk = Inr (r, st') \<longrightarrow>
      length (analysis_cache st') \<le> 1000 \<and> distinct (dict_keys (analysis_cache st')) \<and>
      cache_size st' = 1000"
    using analyze_command_invariant[OF assms(1,2) five] assms(3) by metis
  from b d c below full calls show ?thesis by blast
qed

lemma full_cache_length: "length full_cache = 1000"
  unfolding full_cache_def by (simp only: length_map length_upt)

lemma full_cache_keys: "dict_keys full_cache = map (\<lambda>n. replicate n CHR ''a'') [0..<1000]"
  unfolding full_cache_def dict_keys_def by (simp only: map_map comp_def fst_conv)

lemma full_cache_distinct: "distinct (dict_keys full_cache)"
proof -
  have "inj_on (\<lambda>n. replicate n CHR ''a'') (set [0..<1000])"
    by (rule inj_onI) (metis length_replicate)
  then show ?thesis
    unfolding full_cache_keys by (simp only: distinct_map distinct_upt simp_thms)
qed

lemma full_cache_miss: "map_of full_cache ''10.0.0.7:ls'' = None"
proof -
  have "''10.0.0.7:ls'' \<notin> set (dict_keys full_cache)"
  proof
    assume "''10.0.0.7:ls'' \<in> set (dict_keys full_cache)"
    then obtain n where "''10.0.0.7:ls'' = replicate n CHR ''a''"
      unfolding full_cache_keys by (auto simp only: set_map)
    then have "CHR ''1'' \<in> set (replicate n CHR ''a'')" by (metis list.set_intros(1))
    then show False by simp
  qed
  then show ?thesis by (simp add: dict_keys_def map_of_eq_None_iff)
qed

theorem cache_bounded_witness:
  "distinct (dict_keys (analysis_cache full_analyzer)) \<and>
   length (analysis_cache full_analyzer) = 1000 \<and>
   cache_size full_analyzer = 1000 \<and>
   length (analysis_cache
     (cache_analysis full_analyzer ''10.0.0.7:ls''
        (fresh_analysis no_model ''ls'' ''10.0.0.7'' clock_morning))) = 801"
proof -
  have a: "analysis_cache full_analyzer = full_cache" "cache_size full_analyzer = 1000"
    by (simp_all add: full_analyzer_def)
  have d: "distinct (dict_keys (analysis_cache full_analyzer))"
    unfolding a by (rule full_cache_distinct)
  have l: "length (analysis_cache full_analyzer) \<le> cache_size full_analyzer"
    unfolding a by (simp only: full_cache_length order_refl)
  have m: "map_of (analysis_cache full_analyzer) ''10.0.0.7:ls'' = None"
    unfolding a by (rule full_cache_miss)
  have n: "length (analysis_cache full_analyzer) = 1000"
    unfolding a by (rule full_cache_length)
  from cache_bounded[OF d l a(2), of "''10.0.0.7:ls''"
      "fresh_analysis no_model ''ls'' ''10.0.0.7'' clock_morning"] m n d a(2)
  show ?thesis by blast
qed

text \<open>
  Claim C7 as stated fails in its second half: the assessment served from the cache in the
  evening is the one computed in the morning, while a fresh computation of the same pair
  in the evening carries the evening's time stamps and session id.
\<close>

theorem cache_hit_counterexample:
  "analyze_command (ai_analyzer_init no_model) ''ls'' ''10.0.0.7'' clock_morning =
     Inr (fresh_analysis no_model ''ls'' ''10.0.0.7'' clock_morning,
          cache_analysis (ai_analyzer_init no_model) (make_cache_key ''10.0.0.7'' ''ls'')
            (fresh_analysis no_model ''ls'' ''10.0.0.7'' clock_morning)) \<and>
   analyze_command
     (cache_analysis (ai_analyzer_init no_model) (make_cache_key ''10.0.0.7'' ''ls'')
        (fresh_analysis no_model ''ls'' ''10.0.0.7'' clock_morning))
     ''ls'' ''10.0.0.7'' clock_evening =
     Inr (fresh_analysis no_model ''ls'' ''10.0.0.7'' clock_morning,
          cache_analysis (ai_analyzer_init no_model) (make_cache_key ''10.0.0.7'' ''ls'')
            (fresh_analysis no_model ''ls'' ''10.0.0.7'' clock_morning)) \<and>
   analyze_command (ai_analyzer_init no_model) ''ls'' ''10.0.0.7'' clock_evening =
     Inr (fresh_analysis no_model ''ls'' ''10.0.0.7'' clock_evening,
          cache_analysis (ai_analyzer_init no_model) (make_cache_key ''10.0.0.7'' ''ls'')
            (fresh_analysis no_model ''ls'' ''10.0.0.7'' clock_evening)) \<and>
   fresh_analysis no_model ''ls'' ''10.0.0.7'' clock_morning \<noteq>
   fresh_analysis no_model ''ls'' ''10.0.0.7'' clock_evening"
proof -
  have first: "analyze_command (ai_analyzer_init no_model) ''ls'' ''10.0.0.7'' clock_morning =
     Inr (fresh_analysis no_model ''ls'' ''10.0.0.7'' clock_morning,
          cache_analysis (ai_analyzer_init no_model) (make_cache_key ''10.0.0.7'' ''ls'')
            (fresh_analysis no_model ''ls'' ''10.0.0.7'' clock_morning))"
    using analyze_command_miss[where st = "ai_analyzer_init no_model" and ip = "''10.0.0.7''" and command = "''ls''"
        and clk = clock_morning]
    by (simp add: init_miss init_manager)
  have second: "analyze_command
     (cache_analysis (ai_analyzer_init no_model) (make_cache_key ''10.0.0.7'' ''ls'')
        (fresh_analysis no_model ''ls'' ''10.0.0.7'' clock_morning))
     ''ls'' ''10.0.0.7'' clock_evening =
     Inr (fresh_analysis no_model ''ls'' ''10.0.0.7'' clock_morning,
          cache_analysis (ai_analyzer_init no_model) (make_cache_key ''10.0.0.7'' ''ls'')
            (fresh_analysis no_model ''ls'' ''10.0.0.7'' clock_morning))"
    using first by (rule second_call_cached)
  have fresh: "analyze_command (ai_analyzer_init no_model) ''ls'' ''10.0.0.7'' clock_evening =
     Inr (fresh_analysis no_model ''ls'' ''10.0.0.7'' clock_evening,
          cache_analysis (ai_analyzer_init no_model) (make_cache_key ''10.0.0.7'' ''ls'')
            (fresh_analysis no_model ''ls'' ''10.0.0.7'' clock_evening))"
    using analyze_command_miss[where st = "ai_analyzer_init no_model" and ip = "''10.0.0.7''" and command = "''ls''"
        and clk = clock_evening]
    by (simp add: init_miss init_manager)
  have "an_timestamp (fresh_analysis no_model ''ls'' ''10.0.0.7'' clock_morning) \<noteq>
        an_timestamp (fresh_analysis no_model ''ls'' ''10.0.0.7'' clock_evening)"
    using ex_iso by (simp add: fresh_analysis_def clock_morning_def clock_evening_def)
  then have differ: "fresh_analysis no_model ''ls'' ''10.0.0.7'' clock_morning \<noteq>
                     fresh_analysis no_model ''ls'' ''10.0.0.7'' clock_evening"
    by auto
  from first second fresh differ show ?thesis by (intro conjI)
qed

text \<open>
  Claim C7, as the code has it. A second call of \<open>analyze_command\<close> for the same
  \<open>(ip, command)\<close> returns the assessment of the first call, equal in every field, and
  leaves the analyzer unchanged. When the first call computed the assessment, a fresh
  computation of the same pair on the same analyzer at another time agrees with the cached
  assessment in every field except the three read from the clock: \<open>analysis_timestamp\<close>,
  \<open>timestamp\<close> and \<open>session_id\<close>.
\<close>

theorem cache_hit_idempotent:
  assumes "analyze_command st command ip clk1 = Inr (a, st1)"
  shows "analyze_command st1 command ip clk2 = Inr (a, st1) \<and>
         (map_of (analysis_cache st) (make_cache_key ip command) = None \<longrightarrow>
            (\<exists>st2. analyze_command st command ip clk2 =
               Inr (a\<lparr>an_analysis_timestamp := Some (isoformat (at_validate clk2)),
                      an_timestamp := Some (isoformat (at_timestamp clk2)),
                      an_session_id := Some (ip @ ''_'' @ show_int (dt_posix (at_session clk2)))\<rparr>,
                    st2)))"
proof
  show "analyze_command st1 command ip clk2 = Inr (a, st1)"
    using assms by (rule second_call_cached)
  show "map_of (analysis_cache st) (make_cache_key ip command) = None \<longrightarrow>
            (\<exists>st2. analyze_command st command ip clk2 =
               Inr (a\<lparr>an_analysis_timestamp := Some (isoformat (at_validate clk2)),
                      an_timestamp := Some (isoformat (at_timestamp clk2)),
                      an_session_id := Some (ip @ ''_'' @ show_int (dt_posix (at_session clk2)))\<rparr>,
                    st2))"
  proof
    assume miss: "map_of (analysis_cache st) (make_cache_key ip command) = None"
    with assms have a: "a = fresh_analysis (manager st) command ip clk1"
      by (auto simp: analyze_command_miss)
    show "\<exists>st2. analyze_command st command ip clk2 =
               Inr (a\<lparr>an_analysis_timestamp := Some (isoformat (at_validate clk2)),
                      an_timestamp := Some (isoformat (at_timestamp clk2)),
                      an_session_id := Some (ip @ ''_'' @ show_int (dt_posix (at_session clk2)))\<rparr>,
                    st2)"
      unfolding a analyze_command_miss[OF miss]
      using fresh_analysis_clock[of "manager st" command ip clk2 clk1] by simp
  qed
qed

theorem cache_hit_idempotent_witness:
  "analyze_command
     (cache_analysis (ai_analyzer_init no_model) (make_cache_key ''10.0.0.7'' ''ls'')
        (fresh_analysis no_model ''ls'' ''10.0.0.7'' clock_morning))
     ''ls'' ''10.0.0.7'' clock_evening =
   Inr (fresh_analysis no_model ''ls'' ''10.0.0.7'' clock_morning,
        cache_analysis (ai_analyzer_init no_model) (make_cache_key ''10.0.0.7'' ''ls'')
          (fresh_analysis no_model ''ls'' ''10.0.0.7'' clock_morning))"
proof -
  have first: "analyze_command (ai_analyzer_init no_model) ''ls'' ''10.0.0.7'' clock_morning =
     Inr (fresh_analysis no_model ''ls'' ''10.0.0.7'' clock_morning,
          cache_analysis (ai_analyzer_init no_model) (make_cache_key ''10.0.0.7'' ''ls'')
            (fresh_analysis no_model ''ls'' ''10.0.0.7'' clock_morning))"
    using analyze_command_miss[where st = "ai_analyzer_init no_model" and ip = "''10.0.0.7''" and command = "''ls''"
        and clk = clock_morning]
    by (simp add: init_miss init_manager)
  from cache_hit_idempotent[OF first, of clock_evening] show ?thesis by blast
qed

lemma cache_key_injective:
  "CHR '':'' \<notin> set ip1 \<Longrightarrow> CHR '':'' \<notin> set ip2 \<Longrightarrow>
   make_cache_key ip1 c1 = make_cache_key ip2 c2 \<Longrightarrow> ip1 = ip2 \<and> c1 = c2"
  unfolding make_cache_key_def
proof (induction ip1 arbitrary: ip2)
  case Nil
  then show ?case by (cases ip2) auto
next
  case (Cons x ip1)
  show ?case
  proof (cases ip2)
    case Nil
    with Cons.prems show ?thesis by auto
  next
    case (Cons y ip2')
    with Cons.prems have "x = y" and "ip1 @ '':'' @ c1 = ip2' @ '':'' @ c2"
      and "CHR '':'' \<notin> set ip1" and "CHR '':'' \<notin> set ip2'"
      by auto
    with Cons.IH[of ip2'] Cons show ?thesis by auto
  qed
qed

text \<open>
  Claim C10 as stated fails in its example: the keys of \<open>("1.2.3.4", "x")\<close> and
  \<open>("1.2.3", "4:x")\<close> are \<open>1.2.3.4:x\<close> and \<open>1.2.3:4:x\<close>. After a call for the first pair the
  call for the second is a miss and computes its own assessment.
\<close>

theorem cache_key_example_counterexample:
  "make_cache_key ''1.2.3.4'' ''x'' \<noteq> make_cache_key ''1.2.3'' ''4:x'' \<and>
   analyze_command
     (cache_analysis (ai_analyzer_init no_model) (make_cache_key ''1.2.3.4'' ''x'')
        (fresh_analysis no_model ''x'' ''1.2.3.4'' clock_morning))
     ''4:x'' ''1.2.3'' clock_evening =
   Inr (fresh_analysis no_model ''4:x'' ''1.2.3'' clock_evening,
        cache_analysis
          (cache_analysis (ai_analyzer_init no_model) (make_cache_key ''1.2.3.4'' ''x'')
             (fresh_analysis no_model ''x'' ''1.2.3.4'' clock_morning))
          (make_cache_key ''1.2.3'' ''4:x'')
          (fresh_analysis no_model ''4:x'' ''1.2.3'' clock_evening)) \<and>
   an_ip (fresh_analysis no_model ''4:x'' ''1.2.3'' clock_evening) = Some ''1.2.3''"
proof -
  let ?st1 = "cache_analysis (ai_analyzer_init no_model) (make_cache_key ''1.2.3.4'' ''x'')
                (fresh_analysis no_model ''x'' ''1.2.3.4'' clock_morning)"
  have key: "make_cache_key ''1.2.3.4'' ''x'' \<noteq> make_cache_key ''1.2.3'' ''4:x''"
    by (simp add: make_cache_key_def)
  have miss: "map_of (analysis_cache ?st1) (make_cache_key ''1.2.3'' ''4:x'') = None"
    using key by (simp add: cache_analysis_def ai_analyzer_init_def Let_def)
  have mgr: "manager ?st1 = no_model"
    by (simp add: cache_analysis_fields init_manager)
  have call: "analyze_command ?st1 ''4:x'' ''1.2.3'' clock_evening =
     Inr (fresh_analysis no_model ''4:x'' ''1.2.3'' clock_evening,
          cache_analysis ?st1 (make_cache_key ''1.2.3'' ''4:x'')
            (fresh_analysis no_model ''4:x'' ''1.2.3'' clock_evening))"
    using analyze_command_miss[OF miss, of clock_evening] by (simp only: mgr)
  have ip: "an_ip (fresh_analysis no_model ''4:x'' ''1.2.3'' clock_evening) = Some ''1.2.3''"
    by (simp add: fresh_analysis_def)
  from key call ip show ?thesis by (intro conjI)
qed

text \<open>
  Claim C10, as the code has it. The cache key is the one string \<open>ip + ":" + command\<close>.
  The pairs \<open>("2001:db8::1:2", "x")\<close> and \<open>("2001:db8::1", "2:x")\<close> differ and have the
  same key, so on a new analyzer the call for the second pair returns the assessment
  computed for the first, with the first pair's command, ip and session id. Two different
  pairs whose addresses hold no colon never have the same key.
\<close>

theorem cache_key_collision:
  "(''2001:db8::1:2'', ''x'') \<noteq> (''2001:db8::1'', ''2:x'') \<and>
   make_cache_key ''2001:db8::1:2'' ''x'' = make_cache_key ''2001:db8::1'' ''2:x'' \<and>
   (\<exists>a st1.
      analyze_command (ai_analyzer_init mgr) ''x'' ''2001:db8::1:2'' clk1 = Inr (a, st1) \<and>
      analyze_command st1 ''2:x'' ''2001:db8::1'' clk2 = Inr (a, st1) \<and>
      an_command a = ''x'' \<and>
      an_ip a = Some ''2001:db8::1:2'' \<and>
      an_session_id a = Some (''2001:db8::1:2_'' @ show_int (dt_posix (at_session clk1)))) \<and>
   (CHR '':'' \<notin> set ip1 \<and> CHR '':'' \<notin> set ip2 \<and> (ip1, c1) \<noteq> (ip2, c2) \<longrightarrow>
      make_cache_key ip1 c1 \<noteq> make_cache_key ip2 c2)"
proof -
  let ?a = "fresh_analysis mgr ''x'' ''2001:db8::1:2'' clk1"
  let ?st1 = "cache_analysis (ai_analyzer_init mgr) (make_cache_key ''2001:db8::1:2'' ''x'') ?a"
  have key: "make_cache_key ''2001:db8::1:2'' ''x'' = make_cache_key ''2001:db8::1'' ''2:x''"
    by (simp add: make_cache_key_def)
  have first: "analyze_command (ai_analyzer_init mgr) ''x'' ''2001:db8::1:2'' clk1 = Inr (?a, ?st1)"
    using analyze_command_miss[where st = "ai_analyzer_init mgr" and ip = "''2001:db8::1:2''" and command = "''x''"
        and clk = clk1]
    by (simp add: init_miss init_manager)
  have "map_of (analysis_cache ?st1) (make_cache_key ''2001:db8::1'' ''2:x'') = Some ?a"
    unfolding key[symmetric] by (rule cache_analysis_lookup)
  then have second: "analyze_command ?st1 ''2:x'' ''2001:db8::1'' clk2 = Inr (?a, ?st1)"
    by (rule analyze_command_hit)
  have fields: "an_command ?a = ''x'' \<and> an_ip ?a = Some ''2001:db8::1:2'' \<and>
                an_session_id ?a = Some (''2001:db8::1:2_'' @ show_int (dt_posix (at_session clk1)))"
    by (simp add: fresh_analysis_def validate_command_def Let_def)
  have neq: "(''2001:db8::1:2'', ''x'') \<noteq> (''2001:db8::1'', ''2:x'')" by simp
  have ex: "\<exists>a st1.
      analyze_command (ai_analyzer_init mgr) ''x'' ''2001:db8::1:2'' clk1 = Inr (a, st1) \<and>
      analyze_command st1 ''2:x'' ''2001:db8::1'' clk2 = Inr (a, st1) \<and>
      an_command a = ''x'' \<and>
      an_ip a = Some ''2001:db8::1:2'' \<and>
      an_session_id a = Some (''2001:db8::1:2_'' @ show_int (dt_posix (at_session clk1)))"
    using first second fields by (intro exI[of _ ?a] exI[of _ ?st1] conjI) simp_all
  have inj: "CHR '':'' \<notin> set ip1 \<and> CHR '':'' \<notin> set ip2 \<and> (ip1, c1) \<noteq> (ip2, c2) \<longrightarrow>
      make_cache_key ip1 c1 \<noteq> make_cache_key ip2 c2"
    using cache_key_injective[of ip1 ip2 c1 c2] by blast
  from neq key ex inj show ?thesis by (intro conjI)
qed


theorem cache_key_collision_witness:
  "CHR '':'' \<notin> set ''1.2.3.4'' \<and> CHR '':'' \<notin> set ''1.2.3'' \<and>
   (''1.2.3.4'', ''x'') \<noteq> (''1.2.3'', ''4:x'') \<and>
   make_cache_key ''1.2.3.4'' ''x'' \<noteq> make_cache_key ''1.2.3'' ''4:x''"
  using cache_key_collision[of no_model clock_morning clock_evening "''1.2.3.4''" "''1.2.3''"
      "''x''" "''4:x''"]
  by simp

section \<open>Determinism\<close>

text \<open>
  Claim C2 as stated fails: two calls of \<open>analyze_command_threat\<close> on the same day with the
  same command and address return different \<open>analysis_timestamp\<close> fields.
\<close>

theorem determinism_counterexample:
  "same_day morning evening \<and>
   analyze_command_threat digest_stub ''ls -la'' ''192.168.1.50'' morning morning \<noteq>
   analyze_command_threat digest_stub ''ls -la'' ''192.168.1.50'' evening evening"
proof -
  have "analysis_timestamp
          (analyze_command_threat digest_stub ''ls -la'' ''192.168.1.50'' morning morning) \<noteq>
        analysis_timestamp
          (analyze_command_threat digest_stub ''ls -la'' ''192.168.1.50'' evening evening)"
    unfolding analysis_timestamp_eq by (rule ex_iso)
  then have "analyze_command_threat digest_stub ''ls -la'' ''192.168.1.50'' morning morning \<noteq>
             analyze_command_threat digest_stub ''ls -la'' ''192.168.1.50'' evening evening"
    by auto
  with ex_same_day show ?thesis by (intro conjI)
qed

text \<open>
  Claim C2, as the code has it. Two calls of \<open>analyze_command_threat\<close> with the same command
  and source address whose signature clock readings fall on the same calendar day return
  assessments that agree in every field, \<open>threat_signature\<close> included, except
  \<open>analysis_timestamp\<close>, which is the time of each call. Two successive calls of
  \<open>AIAnalyzer.analyze_command\<close> with the same command and address return the same analysis
  in every field, the second from the cache.
\<close>

theorem same_day_determinism:
  "(same_day s1 s2 \<longrightarrow>
      analyze_command_threat sha256 command ip s1 t1 =
      (analyze_command_threat sha256 command ip s2 t2)\<lparr>analysis_timestamp := isoformat t1\<rparr>) \<and>
   (analyze_command st command ip clk1 = Inr (a, st1) \<longrightarrow>
      analyze_command st1 command ip clk2 = Inr (a, st1))"
  using analyze_same_day[of s1 s2 sha256 command ip t1 t2]
    second_call_cached[of st command ip clk1 a st1 clk2]
  by blast

theorem same_day_determinism_witness:
  "same_day morning evening \<and>
   analyze_command_threat digest_stub ''ls -la'' ''192.168.1.50'' morning morning =
     (analyze_command_threat digest_stub ''ls -la'' ''192.168.1.50'' evening evening)
       \<lparr>analysis_timestamp := isoformat morning\<rparr>"
  using same_day_determinism[of morning evening digest_stub "''ls -la''" "''192.168.1.50''"
      morning evening] ex_same_day
  by blast

section \<open>Failure modes of the analyzer\<close>

lemma predict_anomaly_no_model: "model mgr = None \<Longrightarrow> predict_anomaly mgr fs = heuristic_score fs"
  by (simp add: predict_anomaly_def)

lemma predict_anomaly_raises:
  "model mgr = Some m \<Longrightarrow> model_score mgr m fs = Inl e \<Longrightarrow>
   predict_anomaly mgr fs = heuristic_score fs"
  by (simp add: predict_anomaly_def)

lemma no_pattern_in_empty:
  "filter (\<lambda>pattern. str_in pattern (lower [])) suspicious_pattern_list = []"
  by (simp add: lower_def suspicious_pattern_list_def)

lemma heuristic_empty: "heuristic_score (extract_features []) = 0"
  unfolding heuristic_score_extract no_pattern_in_empty by (simp add: entropy_empty)

lemma fresh_analysis_score:
  "an_anomaly_score (fresh_analysis mgr command ip clk) = predict_anomaly mgr (extract_features command)"
  "an_threat_level (fresh_analysis mgr command ip clk) =
     get_threat_level (predict_anomaly mgr (extract_features command))"
  by (simp_all add: fresh_analysis_def validate_command_def Let_def)

lemma alarm_predict: "predict_anomaly alarm_manager fs = 1"
  by (simp add: predict_anomaly_def alarm_manager_def alarm_model_def model_score_def)

text \<open>
  Claim C4 as stated fails: with a loaded model that flags the empty command, the
  assessment of the empty command is CRITICAL, not LOW.
\<close>

theorem empty_command_counterexample:
  "analyze_command (ai_analyzer_init alarm_manager) [] ''203.0.113.25'' clock_morning =
     Inr (fresh_analysis alarm_manager [] ''203.0.113.25'' clock_morning,
          cache_analysis (ai_analyzer_init alarm_manager) (make_cache_key ''203.0.113.25'' [])
            (fresh_analysis alarm_manager [] ''203.0.113.25'' clock_morning)) \<and>
   an_anomaly_score (fresh_analysis alarm_manager [] ''203.0.113.25'' clock_morning) = 1 \<and>
   an_threat_level (fresh_analysis alarm_manager [] ''203.0.113.25'' clock_morning) = ''CRITICAL''"
proof -
  have call: "analyze_command (ai_analyzer_init alarm_manager) [] ''203.0.113.25'' clock_morning =
     Inr (fresh_analysis alarm_manager [] ''203.0.113.25'' clock_morning,
          cache_analysis (ai_analyzer_init alarm_manager) (make_cache_key ''203.0.113.25'' [])
            (fresh_analysis alarm_manager [] ''203.0.113.25'' clock_morning))"
    using analyze_command_miss[where st = "ai_analyzer_init alarm_manager"
        and ip = "''203.0.113.25''" and command = "[]" and clk = clock_morning]
    by (simp add: init_miss init_manager)
  have score: "an_anomaly_score (fresh_analysis alarm_manager [] ''203.0.113.25'' clock_morning) = 1"
    by (simp add: fresh_analysis_score alarm_predict)
  have level: "an_threat_level (fresh_analysis alarm_manager [] ''203.0.113.25'' clock_morning)
               = ''CRITICAL''"
    by (simp add: fresh_analysis_score alarm_predict get_threat_level_def)
  from call score level show ?thesis by (intro conjI)
qed

text \<open>
  Claim C4, as the code has it. \<open>analyze_command\<close> always returns an assessment and never
  raises. Without a model, and whenever the model invocation raises, the score is that of
  the heuristic path. On that path the empty command, when it is not cached, gets score 0
  and tier LOW; with a working model its tier is the bucket of the model's score. The
  assessment that replaces a failed analysis is MEDIUM with score 0.5, not LOW.
\<close>

theorem analyzer_never_raises:
  "(\<exists>a st'. analyze_command st command ip clk = Inr (a, st')) \<and>
   (model mgr = None \<longrightarrow> predict_anomaly mgr fs = heuristic_score fs) \<and>
   (\<forall>m e. model mgr = Some m \<and> model_score mgr m fs = Inl e \<longrightarrow>
      predict_anomaly mgr fs = heuristic_score fs) \<and>
   ((model (manager st) = None \<or>
     (\<exists>m e. model (manager st) = Some m \<and>
            model_score (manager st) m (extract_features []) = Inl e)) \<and>
    map_of (analysis_cache st) (make_cache_key ip []) = None \<longrightarrow>
      (\<exists>a st'. analyze_command st [] ip clk = Inr (a, st') \<and>
               an_anomaly_score a = 0 \<and> an_threat_level a = ''LOW'')) \<and>
   an_anomaly_score (fallback_analysis command ip now) = 0.5 \<and>
   an_threat_level (fallback_analysis command ip now) = ''MEDIUM''"
proof -
  have ret: "\<exists>a st'. analyze_command st command ip clk = Inr (a, st')"
    by (rule analyze_command_returns)
  have none: "model mgr = None \<longrightarrow> predict_anomaly mgr fs = heuristic_score fs"
    by (simp add: predict_anomaly_no_model)
  have raises: "\<forall>m e. model mgr = Some m \<and> model_score mgr m fs = Inl e \<longrightarrow>
      predict_anomaly mgr fs = heuristic_score fs"
    by (simp add: predict_anomaly_raises)
  have empty: "(model (manager st) = None \<or>
     (\<exists>m e. model (manager st) = Some m \<and>
            model_score (manager st) m (extract_features []) = Inl e)) \<and>
    map_of (analysis_cache st) (make_cache_key ip []) = None \<longrightarrow>
      (\<exists>a st'. analyze_command st [] ip clk = Inr (a, st') \<and>
               an_anomaly_score a = 0 \<and> an_threat_level a = ''LOW'')"
  proof
    assume h: "(model (manager st) = None \<or>
     (\<exists>m e. model (manager st) = Some m \<and>
            model_score (manager st) m (extract_features []) = Inl e)) \<and>
    map_of (analysis_cache st) (make_cache_key ip []) = None"
    then have p: "predict_anomaly (manager st) (extract_features []) = 0"
      using predict_anomaly_no_model[of "manager st" "extract_features []"]
        predict_anomaly_raises[of "manager st" _ "extract_features []"]
      by (auto simp: heuristic_empty)
    from h have miss: "map_of (analysis_cache st) (make_cache_key ip []) = None" by simp
    show "\<exists>a st'. analyze_command st [] ip clk = Inr (a, st') \<and>
               an_anomaly_score a = 0 \<and> an_threat_level a = ''LOW''"
      unfolding analyze_command_miss[OF miss]
      by (simp add: fresh_analysis_score p get_threat_level_def)
  qed
  have fb: "an_anomaly_score (fallback_analysis command ip now) = 0.5 \<and>
            an_threat_level (fallback_analysis command ip now) = ''MEDIUM''"
    by (simp add: fallback_analysis_def)
  from ret none raises empty fb show ?thesis by (intro conjI) simp_all
qed

lemma broken_model_score:
  "model_score broken_manager broken_model fs = Inl LibraryError"
  by (simp add: model_score_def broken_manager_def broken_model_def)

theorem analyzer_never_raises_witness:
  "model (manager (ai_analyzer_init broken_manager)) = Some broken_model \<and>
   model_score broken_manager broken_model (extract_features []) = Inl LibraryError \<and>
   map_of (analysis_cache (ai_analyzer_init broken_manager)) (make_cache_key ''203.0.113.25'' [])
     = None \<and>
   (\<exists>a st'. analyze_command (ai_analyzer_init broken_manager) [] ''203.0.113.25'' clock_morning
              = Inr (a, st') \<and>
            an_anomaly_score a = 0 \<and> an_threat_level a = ''LOW'')"
proof -
  have m: "model (manager (ai_analyzer_init broken_manager)) = Some broken_model"
    by (simp add: init_manager broken_manager_def)
  have s: "model_score (manager (ai_analyzer_init broken_manager)) broken_model
             (extract_features []) = Inl LibraryError"
    by (simp add: init_manager broken_model_score)
  have c: "map_of (analysis_cache (ai_analyzer_init broken_manager))
             (make_cache_key ''203.0.113.25'' []) = None"
    by (rule init_miss)
  from analyzer_never_raises[of "ai_analyzer_init broken_manager" "[]" "''203.0.113.25''"
      clock_morning no_model "extract_features []" morning] m s c
  have "\<exists>a st'. analyze_command (ai_analyzer_init broken_manager) [] ''203.0.113.25'' clock_morning
              = Inr (a, st') \<and>
            an_anomaly_score a = 0 \<and> an_threat_level a = ''LOW''"
    by blast
  with m s c show ?thesis by (simp add: init_manager)
qed

section \<open>Rendering a response\<close>

lemma generate_response_low:
  "an_threat_level a = ''LOW'' \<Longrightarrow>
   generate_response command a now draw =
   (case get_command_response (strip command) now of
      Inl e \<Rightarrow> Inl e
    | Inr response \<Rightarrow> Inr (response @ ''\<newline>[root@server ~]# ''))"
  by (simp add: generate_response_def Let_def split: sum.splits)

lemma get_command_response_clock:
  "\<not> prefix ''date'' (lower command) \<or> strftime_HMS now1 = strftime_HMS now2 \<Longrightarrow>
   get_command_response command now1 = get_command_response command now2"
  unfolding get_command_response_def Let_def by (elim disjE) simp_all

lemma ex_date_detected:
  "filter (\<lambda>pattern. str_in pattern (lower ''date'')) suspicious_pattern_list = []"
  by code_simp

lemma ex_date_special:
  "length (filter (\<lambda>c. \<not> isalnum c \<and> \<not> isspace c) ''date'') = 0"
  by code_simp

lemma ex_date_path: "\<not> (str_in ''/'' ''date'' \<or> str_in [CHR 0x5C] ''date'')"
  by code_simp

lemma ex_date_entropy: "\<not> shannon_entropy ''date'' > 4"
proof -
  have len: "length ''date'' = 4" by simp
  have pr: "(\<Prod>c\<leftarrow>remdups ''date''. count_list ''date'' c ^ count_list ''date'' c) = 1"
    by code_simp
  show ?thesis unfolding entropy_gt_4_iff len pr by simp
qed

lemma ex_date_low: "an_threat_level (validate_command no_model ''date'' morning) = ''LOW''"
proof -
  have len: "length ''date'' = 4" by simp
  have "heuristic_score (extract_features ''date'') = 0"
    unfolding heuristic_score_extract ex_date_detected ex_date_special len
    using ex_date_entropy ex_date_path by simp
  then show ?thesis
    by (simp add: validate_command_def Let_def predict_anomaly_def no_model_def
        get_threat_level_def)
qed

lemma ex_date_response:
  "get_command_response (strip ''date'') morning = Inr ''Mon Jan 15 10:30:45 UTC 2024''"
  "get_command_response (strip ''date'') evening = Inr ''Mon Jan 15 22:05:09 UTC 2024''"
  by code_simp+

text \<open>
  Claim C8 as stated fails: \<open>date\<close> is a LOW-tier command, and its rendered output holds
  the wall-clock time of the call.
\<close>

theorem render_counterexample:
  "an_threat_level (validate_command no_model ''date'' morning) = ''LOW'' \<and>
   generate_response ''date'' (validate_command no_model ''date'' morning) morning 0 =
     Inr ''Mon Jan 15 10:30:45 UTC 2024\<newline>[root@server ~]# '' \<and>
   generate_response ''date'' (validate_command no_model ''date'' morning) evening 0 =
     Inr ''Mon Jan 15 22:05:09 UTC 2024\<newline>[root@server ~]# ''"
  using ex_date_low
  by (simp add: generate_response_low ex_date_response)

text \<open>
  Claim C8, as the code has it. For a command whose assessment has tier LOW the renderer
  never consults the random source, and repeated calls give the same output (or raise the
  same error) whenever the stripped command does not start with \<open>date\<close> in any letter
  case, or the calls happen within the same second of the clock; the \<open>date\<close> reply carries
  the hour, minute and second of the call.
\<close>

theorem render_low_deterministic:
  assumes "an_threat_level a = ''LOW''"
      and "\<not> prefix ''date'' (lower (strip command)) \<or> strftime_HMS now1 = strftime_HMS now2"
  shows "generate_response command a now1 draw1 = generate_response command a now2 draw2"
  unfolding generate_response_low[OF assms(1)]
  using get_command_response_clock[OF assms(2)] by simp

lemma ex_pwd_detected:
  "filter (\<lambda>pattern. str_in pattern (lower ''pwd'')) suspicious_pattern_list = []"
  by code_simp

lemma ex_pwd_special:
  "length (filter (\<lambda>c. \<not> isalnum c \<and> \<not> isspace c) ''pwd'') = 0"
  by code_simp

lemma ex_pwd_path: "\<not> (str_in ''/'' ''pwd'' \<or> str_in [CHR 0x5C] ''pwd'')"
  by code_simp

lemma ex_pwd_entropy: "\<not> shannon_entropy ''pwd'' > 4"
proof -
  have len: "length ''pwd'' = 3" by simp
  have pr: "(\<Prod>c\<leftarrow>remdups ''pwd''. count_list ''pwd'' c ^ count_list ''pwd'' c) = 1"
    by code_simp
  show ?thesis unfolding entropy_gt_4_iff len pr by simp
qed

lemma ex_pwd_low: "an_threat_level (validate_command no_model ''pwd'' morning) = ''LOW''"
proof -
  have len: "length ''pwd'' = 3" by simp
  have "heuristic_score (extract_features ''pwd'') = 0"
    unfolding heuristic_score_extract ex_pwd_detected ex_pwd_special len
    using ex_pwd_entropy ex_pwd_path by simp
  then show ?thesis
    by (simp add: validate_command_def Let_def predict_anomaly_def no_model_def
        get_threat_level_def)
qed

lemma ex_pwd_not_date: "\<not> prefix ''date'' (lower (strip ''pwd''))"
  by code_simp

theorem render_low_deterministic_witness:
  "an_threat_level (validate_command no_model ''pwd'' morning) = ''LOW'' \<and>
   \<not> prefix ''date'' (lower (strip ''pwd'')) \<and>
   generate_response ''pwd'' (validate_command no_model ''pwd'' morning) morning 0 =
   generate_response ''pwd'' (validate_command no_model ''pwd'' morning) evening 4"
proof -
  have "\<not> prefix ''date'' (lower (strip ''pwd'')) \<or> strftime_HMS morning = strftime_HMS evening"
    using ex_pwd_not_date by simp
  from render_low_deterministic[OF ex_pwd_low this, of 0 4] ex_pwd_low ex_pwd_not_date
  show ?thesis by (intro conjI)
qed

section \<open>Alerts\<close>

lemma send_message_returns: "\<exists>b. send_message tm post txt = Inr b"
  by (auto simp: send_message_def Let_def split: post_outcome.splits json_outcome.splits)

lemma send_alert_unconfigured:
  "\<not> is_configured tm \<Longrightarrow> send_alert tm post now command ip level anomaly info = Inr False"
  by (simp add: send_alert_def)

lemma send_alert_scored_returns:
  "\<exists>b. send_alert tm post now command ip level (Some score) info = Inr b"
proof (cases "is_configured tm")
  case False
  then have "send_alert tm post now command ip level (Some score) info = Inr False"
    by (rule send_alert_unconfigured)
  then show ?thesis by blast
next
  case True
  then show ?thesis
    by (simp add: send_alert_def Let_def send_message_returns split: option.splits)
qed

lemma send_alert_delivery_failure:
  "post_fails = (\<lambda>url payload. Post_Timeout) \<Longrightarrow>
   send_alert tm post_fails now command ip level (Some score) info = Inr False"
  by (simp add: send_alert_def Let_def send_message_def)

text \<open>
  Claim C9 against the code: \<open>send_alert\<close> declares \<open>anomaly_score = None\<close> as its default
  and formats it with \<open>.3f\<close> before any \<open>try\<close>. With a configured sink the call without a
  score raises \<open>TypeError\<close> into its caller, whatever the delivery would have done.
\<close>

theorem send_alert_raises_without_score:
  "is_configured configured_sink \<and>
   send_alert configured_sink post now ''rm -rf /'' ''203.0.113.25'' ''CRITICAL'' None None =
     Inl TypeError"
  by (simp add: send_alert_def is_configured_def truthy_def configured_sink_def Let_def)

end
